theory Spec2Isabelle
  imports Complex_Main
begin

section \<open>Values read from request bodies\<close>

text \<open>
  The order service of the cafe: the order table with its item consolidation (db.js), the
  order routes (order.js) and the publishing side of the MQTT service (mqtt-service.js).

  Request bodies are JSON, so every Number in them is finite. Numbers are modelled as
  exact values: \<open>rat\<close> for prices and totals, \<open>int\<close> for quantities; rounding of
  IEEE doubles is not modelled. An absent property (JavaScript \<open>undefined\<close>, or JSON
  \<open>null\<close>) is \<open>None\<close>. On such values \<open>parseFloat\<close> returns its argument and
  \<open>JSON.parse (JSON.stringify v)\<close> is \<open>v\<close>, so the two are left out of the definitions
  below; \<open>parseInt\<close> is modelled, since it changes a number of magnitude \<open>10^21\<close> or more.
  Properties that would carry a value of another JavaScript type (a quantity given as
  text, a fractional quantity) are outside the types used here. An element of an items
  array is an object or \<open>null\<close>; reading a property of \<open>null\<close> throws.

  A request is handled from start to end on one state: no other request and no change
  of the connection flags falls between its steps.
\<close>

datatype jsval = JNum rat | JStr string

definition truthy :: "jsval option \<Rightarrow> bool" where
  "truthy v = (case v of None \<Rightarrow> False | Some (JNum n) \<Rightarrow> n \<noteq> 0 | Some (JStr s) \<Rightarrow> s \<noteq> [])"

text \<open>\<open>a || b\<close> on a text operand and on a numeric operand: the empty text, zero and an
  absent value are falsy and select \<open>b\<close>.\<close>

definition str_or :: "string option \<Rightarrow> string \<Rightarrow> string" where
  "str_or a b = (case a of None \<Rightarrow> b | Some s \<Rightarrow> if s \<noteq> [] then s else b)"

definition num_or :: "'a::zero option \<Rightarrow> 'a \<Rightarrow> 'a" where
  "num_or a b = (case a of None \<Rightarrow> b | Some n \<Rightarrow> if n \<noteq> 0 then n else b)"

section \<open>Items and their consolidation (db.js)\<close>

text \<open>An element of the \<open>items\<close> array as a caller sends it: every property may be absent.\<close>

record item =
  i_name :: "string option"
  i_title :: "string option"
  i_quantity :: "int option"
  i_count :: "int option"
  i_price :: "rat option"

text \<open>An entry of the \<open>itemMap\<close> built by \<open>processOrderItems\<close>, which is also an element of
  the stored item list.\<close>

record line =
  name :: string
  quantity :: int
  price :: rat
  totalItemPrice :: rat

text \<open>The sentinel label of an unnamed item, as the UTF-8 bytes of the source literal.\<close>

definition unnamed_label :: string where
  "unnamed_label = [CHR 0xD9, CHR 0x86, CHR 0xD8, CHR 0xA7, CHR 0xD9, CHR 0x85,
                    CHR 0xD8, CHR 0xB4, CHR 0xD8, CHR 0xAE, CHR 0xD8, CHR 0xB5]"

definition itemName :: "item \<Rightarrow> string" where
  "itemName it = str_or (i_name it) (str_or (i_title it) unnamed_label)"

definition itemPrice :: "item \<Rightarrow> rat" where
  "itemPrice it = num_or (i_price it) 0"

text \<open>
  \<open>parseInt\<close> of an integer Number reads the number's text up to the first character that
  is not a digit. Below \<open>10^21\<close> in magnitude the text is the decimal numeral, and the
  result is the number. From \<open>10^21\<close> on the text is in exponent form, as in \<open>1.2e+21\<close>,
  and the result is the leading digit with the number's sign.
\<close>

fun leading_digit :: "nat \<Rightarrow> nat" where
  "leading_digit n = (if n < 10 then n else leading_digit (n div 10))"

declare leading_digit.simps [simp del]

definition parseInt :: "int \<Rightarrow> int" where
  "parseInt n = (if \<bar>n\<bar> < 10 ^ 21 then n else sgn n * int (leading_digit (nat \<bar>n\<bar>)))"

text \<open>\<open>item.quantity || item.count || 1\<close>, and the \<open>itemQuantity\<close> that \<open>parseInt\<close> makes
  of it.\<close>

definition rawQuantity :: "item \<Rightarrow> int" where
  "rawQuantity it = num_or (i_quantity it) (num_or (i_count it) 1)"

definition itemQuantity :: "item \<Rightarrow> int" where
  "itemQuantity it = parseInt (rawQuantity it)"

text \<open>The \<open>Map\<close> keeps its entries in insertion order; it is a list of lines with the name
  as key. \<open>itemMap_bump\<close> is the in-place update of the entry found by \<open>itemMap.get\<close>.\<close>

definition itemMap_has :: "line list \<Rightarrow> string \<Rightarrow> bool" where
  "itemMap_has m k = (k \<in> set (map name m))"

fun itemMap_bump :: "line list \<Rightarrow> string \<Rightarrow> int \<Rightarrow> line list" where
  "itemMap_bump [] k q = []"
| "itemMap_bump (l # m) k q =
     (if name l = k
      then l\<lparr>quantity := quantity l + q,
             totalItemPrice := price l * of_int (quantity l + q)\<rparr> # m
      else l # itemMap_bump m k q)"

text \<open>The body of \<open>parsedItems.forEach\<close>.\<close>

definition forEach_item :: "line list \<Rightarrow> item \<Rightarrow> line list" where
  "forEach_item m it =
     (if itemMap_has m (itemName it)
      then itemMap_bump m (itemName it) (itemQuantity it)
      else m @ [\<lparr>name = itemName it, quantity = itemQuantity it, price = itemPrice it,
                  totalItemPrice = itemPrice it * of_int (itemQuantity it)\<rparr>])"

text \<open>
  The \<open>items\<close> argument: absent, something that is not an array (or text that does not
  parse to one), or an array whose elements are objects (\<open>Some\<close>) or \<open>null\<close> (\<open>None\<close>).
  The first two end in the \<open>catch\<close> branch, which returns the empty list. So does an
  array with a \<open>null\<close> element: \<open>item.name\<close> throws inside \<open>forEach\<close>, and the entries
  made so far are dropped. \<open>those\<close> gives the objects of an array without \<open>null\<close>.
\<close>

datatype items_arg = NoItems | NonArray | ItemArray "item option list"

fun processOrderItems :: "items_arg \<Rightarrow> line list" where
  "processOrderItems (ItemArray parsedItems) =
     (case those parsedItems of
        None \<Rightarrow> []
      | Some objects \<Rightarrow> foldl forEach_item [] objects)"
| "processOrderItems _ = []"

text \<open>An array of objects.\<close>

definition object_array :: "item list \<Rightarrow> items_arg" where
  "object_array its = ItemArray (map Some its)"

definition calculateTotalPrice :: "items_arg \<Rightarrow> rat" where
  "calculateTotalPrice items =
     foldl (\<lambda>total l. total + price l * of_int (quantity l)) 0 (processOrderItems items)"

text \<open>A stored line read back as an item: what \<open>JSON.parse\<close> of the stored text gives to
  the property reads of \<open>processOrderItems\<close>.\<close>

definition line_json :: "line \<Rightarrow> item" where
  "line_json l = \<lparr>i_name = Some (name l), i_title = None, i_quantity = Some (quantity l),
                  i_count = None, i_price = Some (price l)\<rparr>"

text \<open>Helper notions used to state properties of the consolidated list: the invariant of
  a line, the quantity recorded under a key, and the order in which keys are first seen.\<close>

definition line_ok :: "line \<Rightarrow> bool" where
  "line_ok l = (name l \<noteq> [] \<and> totalItemPrice l = price l * of_int (quantity l))"

definition qty_of :: "line list \<Rightarrow> string \<Rightarrow> int" where
  "qty_of m k = (case find (\<lambda>l. name l = k) m of None \<Rightarrow> 0 | Some l \<Rightarrow> quantity l)"

definition price_of :: "line list \<Rightarrow> string \<Rightarrow> rat" where
  "price_of m k = (case find (\<lambda>l. name l = k) m of None \<Rightarrow> 0 | Some l \<Rightarrow> price l)"

fun first_seen :: "string list \<Rightarrow> string list" where
  "first_seen [] = []"
| "first_seen (x # xs) = x # filter (\<lambda>y. y \<noteq> x) (first_seen xs)"

text \<open>
  The total of an order, said without the consolidation: for each name, in the order of
  first appearance, the price of the first item of that name times the sum of the
  quantities of all items of that name.
\<close>

definition first_price :: "item list \<Rightarrow> string \<Rightarrow> rat" where
  "first_price its k =
     (case find (\<lambda>x. itemName x = k) its of None \<Rightarrow> 0 | Some x \<Rightarrow> itemPrice x)"

definition summed_quantity :: "item list \<Rightarrow> string \<Rightarrow> int" where
  "summed_quantity its k = (\<Sum>x\<leftarrow>filter (\<lambda>x. itemName x = k) its. itemQuantity x)"

definition grouped_total :: "item list \<Rightarrow> rat" where
  "grouped_total its =
     (\<Sum>k\<leftarrow>first_seen (map itemName its). first_price its k * of_int (summed_quantity its k))"

section \<open>The order table (db.js)\<close>

text \<open>
  A row of table \<open>orders\<close>. The \<open>items\<close> column holds the JSON text of a processed item
  list and is modelled by that list. Timestamps are natural numbers read from a clock.
\<close>

record order_row =
  r_id :: nat
  r_tableId :: "jsval option"
  r_tableLocation :: "jsval option"
  r_restaurantId :: "jsval option"
  r_items :: "line list"
  r_totalPrice :: rat
  r_status :: string
  r_created_at :: nat
  r_updated_at :: nat

text \<open>What the read functions resolve with: the row, its items processed again, and the
  added \<open>totalItems\<close>.\<close>

record order = order_row +
  totalItems :: int

text \<open>
  The connection: the rows in insertion order, the next \<open>AUTO_INCREMENT\<close> value, the
  value of \<open>NOW()\<close>, and the error (if any) that \<open>connection.query\<close> hands to its
  callback. A query that fails leaves the table as it was.
\<close>

record db_state =
  rows :: "order_row list"
  auto_increment :: nat
  now :: nat
  query_err :: "string option"

text \<open>The argument of \<open>createOrder\<close>. Its \<open>totalPrice\<close> is \<open>parseFloat\<close> of the caller's
  total (\<open>None\<close> for \<open>NaN\<close>); \<open>createOrder\<close> does not read it.\<close>

record orderData =
  od_tableId :: "jsval option"
  od_tableLocation :: "jsval option"
  od_restaurantId :: "jsval option"
  od_items :: items_arg
  od_totalPrice :: "rat option"

definition createOrder :: "db_state \<Rightarrow> orderData \<Rightarrow> db_state \<times> (string + nat)" where
  "createOrder d od =
     (let processedItems = processOrderItems (od_items od);
          calculatedTotalPrice = calculateTotalPrice (od_items od)
      in case query_err d of
           Some err \<Rightarrow> (d, Inl err)
         | None \<Rightarrow>
             (d\<lparr>rows := rows d @
                   [\<lparr>r_id = auto_increment d, r_tableId = od_tableId od,
                     r_tableLocation = od_tableLocation od,
                     r_restaurantId = od_restaurantId od, r_items = processedItems,
                     r_totalPrice = calculatedTotalPrice, r_status = ''pending'',
                     r_created_at = now d, r_updated_at = now d\<rparr>],
                 auto_increment := auto_increment d + 1\<rparr>,
              Inr (auto_increment d)))"

definition read_row :: "order_row \<Rightarrow> order" where
  "read_row r =
     (let parsedItems = processOrderItems (object_array (map line_json (r_items r)))
      in \<lparr>r_id = r_id r, r_tableId = r_tableId r, r_tableLocation = r_tableLocation r,
          r_restaurantId = r_restaurantId r, r_items = parsedItems,
          r_totalPrice = r_totalPrice r, r_status = r_status r,
          r_created_at = r_created_at r, r_updated_at = r_updated_at r,
          totalItems = foldl (\<lambda>sum l. sum + quantity l) 0 parsedItems\<rparr>)"

definition getOrderById :: "db_state \<Rightarrow> nat \<Rightarrow> string + order option" where
  "getOrderById d orderId =
     (case query_err d of
        Some err \<Rightarrow> Inl err
      | None \<Rightarrow>
          (case filter (\<lambda>r. r_id r = orderId) (rows d) of
             [] \<Rightarrow> Inr None
           | r # _ \<Rightarrow> Inr (Some (read_row r))))"

text \<open>\<open>ORDER BY created_at ASC\<close> is a sort on the creation time; the model sorts stably,
  the database promises no order among equal times. The status test is exact equality of
  text.\<close>

definition getPendingOrders :: "db_state \<Rightarrow> string + order list" where
  "getPendingOrders d =
     (case query_err d of
        Some err \<Rightarrow> Inl err
      | None \<Rightarrow>
          Inr (map read_row
                (sort_key r_created_at
                  (filter (\<lambda>r. r_status r \<notin> set [''completed'', ''cancelled'', ''delivered''])
                          (rows d)))))"

definition updateOrderStatus :: "db_state \<Rightarrow> nat \<Rightarrow> string \<Rightarrow> string + db_state" where
  "updateOrderStatus d orderId newStatus =
     (case query_err d of
        Some err \<Rightarrow> Inl err
      | None \<Rightarrow>
          Inr (d\<lparr>rows := map (\<lambda>r. if r_id r = orderId
                                   then r\<lparr>r_status := newStatus, r_updated_at := now d\<rparr>
                                   else r) (rows d)\<rparr>))"

definition updateOrderItems :: "db_state \<Rightarrow> nat \<Rightarrow> items_arg \<Rightarrow> string + db_state" where
  "updateOrderItems d orderId newItems =
     (let processedItems = processOrderItems newItems;
          calculatedTotalPrice =
            foldl (\<lambda>total l. total + price l * of_int (quantity l)) 0 processedItems
      in case query_err d of
           Some err \<Rightarrow> Inl err
         | None \<Rightarrow>
             Inr (d\<lparr>rows := map (\<lambda>r. if r_id r = orderId
                                      then r\<lparr>r_items := processedItems,
                                             r_totalPrice := calculatedTotalPrice,
                                             r_updated_at := now d\<rparr>
                                      else r) (rows d)\<rparr>))"

text \<open>The sum of unit price times quantity over a list of lines.\<close>

definition lines_total :: "line list \<Rightarrow> rat" where
  "lines_total ls = (\<Sum>l\<leftarrow>ls. price l * of_int (quantity l))"

section \<open>The transport wrapper (mqtt-service.js)\<close>

definition ROBOT_ORDERS :: string where "ROBOT_ORDERS = ''/cafe/robot/orders/next''"
definition EMERGENCY :: string where "EMERGENCY = ''/cafe/emergency''"
definition ORDERS_NEW :: string where "ORDERS_NEW = ''/cafe/orders/new''"
definition ORDERS_STATUS_UPDATE :: string where "ORDERS_STATUS_UPDATE = ''/cafe/orders/status''"

text \<open>The table location of a robot order: the order's own, or the text the route builds
  from the table id when the order has none.\<close>

datatype location = Given jsval | Default_for "jsval option"

record robotOrderData =
  ro_id :: nat
  ro_table_id :: "jsval option"
  ro_table_location :: location
  ro_items :: "line list"
  ro_total_price :: rat
  ro_priority :: "string option"
  ro_status :: string

text \<open>The payloads that the modelled methods publish, without their time stamps, their
  constant properties and the properties read from names the order does not have.\<close>

datatype message =
    Robot_order nat "jsval option" location "line list" rat string
  | Status_updated nat string string
  | New_order_created nat string "line list" nat
  | Emergency_stop

record publication =
  p_topic :: string
  p_payload :: message
  p_qos :: nat
  p_retain :: bool
  p_dup :: bool

record pub_options =
  o_qos :: "nat option"
  o_retain :: "bool option"
  o_dup :: "bool option"

definition no_options :: pub_options where
  "no_options = \<lparr>o_qos = None, o_retain = None, o_dup = None\<rparr>"

datatype io_event =
    New_order_created_event "order option"
  | Order_sent_to_robot bool nat
  | Mqtt_warning nat
  | Order_status_updated nat string string "string option" "order option"

text \<open>What a call does besides returning: a call of the broker client's \<open>publish\<close>, an
  event of the service's own emitter, a broadcast on the push channel.\<close>

datatype effect = ClientPublish publication | ServiceEmit string | IoEmit io_event

text \<open>The service: the connection flag, and the error (if any) that the broker client's
  \<open>publish\<close> hands to its callback. Neither changes during one request.\<close>

record mqtt_service =
  isConnected :: bool
  client_err :: "string option"

definition bool_or :: "bool option \<Rightarrow> bool \<Rightarrow> bool" where
  "bool_or a b = (case a of None \<Rightarrow> b | Some x \<Rightarrow> if x then x else b)"

definition publish ::
    "mqtt_service \<Rightarrow> string \<Rightarrow> message \<Rightarrow> pub_options \<Rightarrow> (string + bool) \<times> effect list" where
  "publish m topic data options =
     (if \<not> isConnected m then (Inl ''MQTT not connected'', [])
      else
        let publishOptions = \<lparr>p_topic = topic, p_payload = data,
                                p_qos = num_or (o_qos options) 1,
                                p_retain = bool_or (o_retain options) False,
                                p_dup = bool_or (o_dup options) False\<rparr>
        in (case client_err m of Some err \<Rightarrow> Inl err | None \<Rightarrow> Inr True,
            [ClientPublish publishOptions]))"

definition publishNewOrder :: "mqtt_service \<Rightarrow> order \<Rightarrow> (string + bool) \<times> effect list" where
  "publishNewOrder m orderData =
     (if \<not> isConnected m then (Inl ''MQTT not connected'', [])
      else
        case publish m ORDERS_NEW
               (New_order_created (r_id orderData) (r_status orderData) (r_items orderData)
                  (r_created_at orderData)) no_options of
          (Inl err, effs) \<Rightarrow> (Inl err, effs)
        | (Inr ok, effs) \<Rightarrow> (Inr ok, effs @ [ServiceEmit ''newOrder'']))"

definition publishOrderStatusUpdate ::
    "mqtt_service \<Rightarrow> nat \<Rightarrow> string \<Rightarrow> string \<Rightarrow> (string + bool) \<times> effect list" where
  "publishOrderStatusUpdate m orderId oldStatus newStatus =
     (if \<not> isConnected m then (Inl ''MQTT not connected'', [])
      else publish m ORDERS_STATUS_UPDATE (Status_updated orderId oldStatus newStatus) no_options)"

definition sendOrderToRobot :: "mqtt_service \<Rightarrow> robotOrderData \<Rightarrow> (string + bool) \<times> effect list" where
  "sendOrderToRobot m orderData =
     (if \<not> isConnected m then (Inl ''MQTT not connected'', [])
      else publish m ROBOT_ORDERS
             (Robot_order (ro_id orderData) (ro_table_id orderData) (ro_table_location orderData)
                (ro_items orderData) (ro_total_price orderData)
                (str_or (ro_priority orderData) ''normal''))
             no_options)"

definition emergencyStop :: "mqtt_service \<Rightarrow> (string + bool) \<times> effect list" where
  "emergencyStop m = publish m EMERGENCY Emergency_stop (no_options\<lparr>o_qos := Some 2\<rparr>)"

section \<open>The order router (order.js)\<close>

text \<open>
  The router's module state: the database connection, whether \<open>setSocketIO\<close> has set
  \<open>io\<close>, and the service set by \<open>setMQTTService\<close> (if any). A handler returns the new
  state, the response, and the effects in the order in which they happen.
\<close>

record world =
  db :: db_state
  io :: bool
  mqttService :: "mqtt_service option"

definition mqtt_connected :: "world \<Rightarrow> bool" where
  "mqtt_connected w = (case mqttService w of None \<Rightarrow> False | Some m \<Rightarrow> isConnected m)"

definition io_emit :: "world \<Rightarrow> io_event \<Rightarrow> effect list" where
  "io_emit w ev = (if io w then [IoEmit ev] else [])"

datatype validation = Valid | Invalid string

definition validateOrderData :: "jsval option \<Rightarrow> items_arg \<Rightarrow> rat option \<Rightarrow> validation" where
  "validateOrderData tableId items totalPrice =
     (if \<not> truthy tableId then Invalid ''Table ID is required''
      else if (case items of ItemArray xs \<Rightarrow> xs = [] | _ \<Rightarrow> True)
        then Invalid ''Items array is required and cannot be empty''
      else if (case totalPrice of None \<Rightarrow> True | Some t \<Rightarrow> t = 0 \<or> t \<le> 0)
        then Invalid ''Total price must be greater than 0''
      else Valid)"

record submit_body =
  b_tableId :: "jsval option"
  b_tableLocation :: "jsval option"
  b_restaurantId :: "jsval option"
  b_items :: items_arg
  b_totalPrice :: "rat option"

text \<open>The \<open>orderData\<close> object of the 201 response. \<open>parseFloat\<close> of an absent total is
  \<open>NaN\<close>, modelled by \<open>None\<close>.\<close>

record submit_echo =
  e_id :: nat
  e_tableId :: "jsval option"
  e_tableLocation :: "jsval option"
  e_restaurantId :: "jsval option"
  e_items :: items_arg
  e_totalPrice :: "rat option"
  e_status :: string

datatype response =
    Failure nat string
  | Created nat submit_echo
  | Status_ok nat string string "bool option"
  | Cancel_ok nat
  | Auto_ok nat string string string

definition map_item :: "item \<Rightarrow> item" where
  "map_item it =
     \<lparr>i_name = Some (str_or (i_name it) (str_or (i_title it) unnamed_label)),
      i_title = None,
      i_quantity = Some (num_or (i_quantity it) (num_or (i_count it) 1)),
      i_count = None,
      i_price = Some (num_or (i_price it) 0)\<rparr>"

text \<open>\<open>items.map\<close> when \<open>items\<close> is an array, \<open>items\<close> itself otherwise. On an array with a
  \<open>null\<close> element the callback throws a \<open>TypeError\<close>: the result is \<open>None\<close>.\<close>

definition map_items :: "items_arg \<Rightarrow> items_arg option" where
  "map_items items =
     (case items of
        ItemArray xs \<Rightarrow>
          (case those xs of
             None \<Rightarrow> None
           | Some objects \<Rightarrow> Some (object_array (map map_item objects)))
      | other \<Rightarrow> Some other)"

definition or_null :: "jsval option \<Rightarrow> jsval option" where
  "or_null v = (if truthy v then v else None)"

definition submit_error_message :: "string \<Rightarrow> string" where
  "submit_error_message code =
     (if code = ''ER_NO_SUCH_TABLE''
        then ''Database table not found. Please check database setup.''
      else if code = ''ER_BAD_FIELD_ERROR''
        then ''Database column mismatch. Please check table structure.''
      else if code = ''ECONNREFUSED''
        then ''Database connection failed. Please check database server.''
      else ''Failed to save order'')"

definition post_submit :: "world \<Rightarrow> submit_body \<Rightarrow> world \<times> response \<times> effect list" where
  "post_submit w body =
     (case validateOrderData (b_tableId body) (b_items body) (b_totalPrice body) of
        Invalid msg \<Rightarrow> (w, Failure 400 msg, [])
      | Valid \<Rightarrow>
          (case map_items (b_items body) of
             None \<Rightarrow> (w, Failure 500 ''Failed to save order'', [])
           | Some processedItems \<Rightarrow>
               let orderData = \<lparr>od_tableId = b_tableId body,
                                od_tableLocation = or_null (b_tableLocation body),
                                od_restaurantId = or_null (b_restaurantId body),
                                od_items = processedItems,
                                od_totalPrice = b_totalPrice body\<rparr>
               in case createOrder (db w) orderData of
                    (_, Inl err) \<Rightarrow> (w, Failure 500 (submit_error_message err), [])
                  | (d', Inr orderId) \<Rightarrow>
                      (case getOrderById d' orderId of
                         Inl err \<Rightarrow>
                           (w\<lparr>db := d'\<rparr>, Failure 500 (submit_error_message err), [])
                       | Inr fullOrder \<Rightarrow>
                           (w\<lparr>db := d'\<rparr>,
                            Created orderId
                              \<lparr>e_id = orderId, e_tableId = b_tableId body,
                               e_tableLocation = b_tableLocation body,
                               e_restaurantId = b_restaurantId body,
                               e_items = processedItems, e_totalPrice = b_totalPrice body,
                               e_status = ''pending''\<rparr>,
                            (if mqtt_connected w
                             then (case (mqttService w, fullOrder) of
                                     (Some m, Some fo) \<Rightarrow> snd (publishNewOrder m fo)
                                   | _ \<Rightarrow> [])
                             else [])
                            @ io_emit w (New_order_created_event fullOrder)))))"

definition allowedStatuses :: "string list" where
  "allowedStatuses = [''pending'', ''preparing'', ''ready'', ''delivered'', ''cancelled'']"

definition robot_order_of :: "order \<Rightarrow> robotOrderData" where
  "robot_order_of updatedOrder =
     \<lparr>ro_id = r_id updatedOrder, ro_table_id = r_tableId updatedOrder,
      ro_table_location =
        (case r_tableLocation updatedOrder of
           Some v \<Rightarrow> if truthy (Some v) then Given v else Default_for (r_tableId updatedOrder)
         | None \<Rightarrow> Default_for (r_tableId updatedOrder)),
      ro_items = r_items updatedOrder, ro_total_price = r_totalPrice updatedOrder,
      ro_priority = Some ''normal'', ro_status = r_status updatedOrder\<rparr>"

text \<open>
  The staff status update. Reading a property of a missing \<open>updatedOrder\<close> throws inside
  the inner \<open>try\<close>, which the inner \<open>catch\<close> reports on the push channel.
  \<open>robotNotified\<close> is the value of
  \<open>status === 'ready' && mqttService && mqttService.isConnected\<close>, which is
  \<open>undefined\<close> (\<open>None\<close>) when no service is set.
\<close>

definition put_status :: "world \<Rightarrow> nat \<Rightarrow> string option \<Rightarrow> world \<times> response \<times> effect list" where
  "put_status w orderId body_status =
     (case body_status of
        None \<Rightarrow> (w, Failure 400 ''Status is required'', [])
      | Some status \<Rightarrow>
          if status = [] then (w, Failure 400 ''Status is required'', [])
          else if status \<notin> set allowedStatuses
            then (w, Failure 400
                   ''Invalid status. Allowed: pending, preparing, ready, delivered, cancelled'', [])
          else
            (case getOrderById (db w) orderId of
               Inl err \<Rightarrow> (w, Failure 500 ''Failed to update order status'', [])
             | Inr None \<Rightarrow> (w, Failure 404 ''Order not found'', [])
             | Inr (Some existingOrder) \<Rightarrow>
                 let oldStatus = r_status existingOrder
                 in (case updateOrderStatus (db w) orderId status of
                       Inl err \<Rightarrow> (w, Failure 500 ''Failed to update order status'', [])
                     | Inr d' \<Rightarrow>
                         (case getOrderById d' orderId of
                            Inl err \<Rightarrow>
                              (w\<lparr>db := d'\<rparr>, Failure 500 ''Failed to update order status'', [])
                          | Inr updatedOrder \<Rightarrow>
                              (w\<lparr>db := d'\<rparr>,
                               Status_ok orderId oldStatus status
                                 (if status = ''ready''
                                  then (case mqttService w of
                                          None \<Rightarrow> None
                                        | Some m \<Rightarrow> Some (isConnected m))
                                  else Some False),
                               (if mqtt_connected w
                                then (case mqttService w of
                                        Some m \<Rightarrow>
                                          snd (publishOrderStatusUpdate m orderId oldStatus status)
                                      | None \<Rightarrow> [])
                                else [])
                               @ (if status = ''ready'' \<and> mqtt_connected w
                                  then (case (mqttService w, updatedOrder) of
                                          (Some m, Some u) \<Rightarrow>
                                            (case sendOrderToRobot m (robot_order_of u) of
                                               (Inr ok, effs) \<Rightarrow>
                                                 effs @ io_emit w (Order_sent_to_robot True orderId)
                                             | (Inl err, effs) \<Rightarrow>
                                                 effs @ io_emit w (Order_sent_to_robot False orderId))
                                        | _ \<Rightarrow> io_emit w (Order_sent_to_robot False orderId))
                                  else if status = ''ready'' \<and> \<not> mqtt_connected w
                                    then io_emit w (Mqtt_warning orderId)
                                  else [])
                               @ io_emit w
                                   (Order_status_updated orderId oldStatus status None
                                      updatedOrder))))))"

definition delete_order :: "world \<Rightarrow> nat \<Rightarrow> world \<times> response \<times> effect list" where
  "delete_order w orderId =
     (case getOrderById (db w) orderId of
        Inl err \<Rightarrow> (w, Failure 500 ''Failed to cancel order'', [])
      | Inr None \<Rightarrow> (w, Failure 404 ''Order not found'', [])
      | Inr (Some existingOrder) \<Rightarrow>
          (case updateOrderStatus (db w) orderId ''cancelled'' of
             Inl err \<Rightarrow> (w, Failure 500 ''Failed to cancel order'', [])
           | Inr d' \<Rightarrow>
               (w\<lparr>db := d'\<rparr>, Cancel_ok orderId,
                (if mqtt_connected w
                 then (case mqttService w of
                         Some m \<Rightarrow>
                           snd (publishOrderStatusUpdate m orderId (r_status existingOrder)
                                  ''cancelled'')
                       | None \<Rightarrow> [])
                 else [])
                @ io_emit w
                    (Order_status_updated orderId (r_status existingOrder) ''cancelled''
                       None None))))"

record auto_body =
  a_orderId :: "nat option"
  a_status :: "string option"
  a_source :: "string option"

definition allowedAutoStatuses :: "string list" where
  "allowedAutoStatuses = [''delivered'']"

definition post_auto_update_status ::
    "world \<Rightarrow> auto_body \<Rightarrow> world \<times> response \<times> effect list" where
  "post_auto_update_status w body =
     (case (a_orderId body, a_status body) of
        (Some orderId, Some status) \<Rightarrow>
          if orderId = 0 \<or> status = []
            then (w, Failure 400 ''Order ID and status are required'', [])
          else
            (case getOrderById (db w) orderId of
               Inl err \<Rightarrow> (w, Failure 500 ''Failed to auto-update order status'', [])
             | Inr None \<Rightarrow> (w, Failure 404 ''Order not found'', [])
             | Inr (Some existingOrder) \<Rightarrow>
                 if status \<notin> set allowedAutoStatuses
                   then (w, Failure 400 ''This status cannot be auto-updated'', [])
                 else
                   let oldStatus = r_status existingOrder
                   in (case updateOrderStatus (db w) orderId status of
                         Inl err \<Rightarrow> (w, Failure 500 ''Failed to auto-update order status'', [])
                       | Inr d' \<Rightarrow>
                           (w\<lparr>db := d'\<rparr>,
                            Auto_ok orderId oldStatus status (str_or (a_source body) ''robot''),
                            io_emit w
                              (Order_status_updated orderId oldStatus status
                                 (Some (str_or (a_source body) ''robot'')) None))))
      | _ \<Rightarrow> (w, Failure 400 ''Order ID and status are required'', []))"

text \<open>The number of calls of the broker client's \<open>publish\<close> on a topic, and the stored
  status of an order.\<close>

definition publishes_on :: "string \<Rightarrow> effect list \<Rightarrow> nat" where
  "publishes_on topic effs =
     length (filter (\<lambda>e. case e of ClientPublish p \<Rightarrow> p_topic p = topic | _ \<Rightarrow> False) effs)"

text \<open>
  The effects by which one dispatch shows: the call of the broker client's \<open>publish\<close> on
  the dispatch topic with the report that follows it, or the warning that the transport
  is not available. \<open>dispatch_outcomes\<close> counts the publishes and the warnings.
\<close>

definition is_dispatch_effect :: "effect \<Rightarrow> bool" where
  "is_dispatch_effect e =
     (case e of
        ClientPublish p \<Rightarrow> p_topic p = ROBOT_ORDERS
      | IoEmit (Order_sent_to_robot ok k) \<Rightarrow> True
      | IoEmit (Mqtt_warning k) \<Rightarrow> True
      | _ \<Rightarrow> False)"

definition is_warning :: "effect \<Rightarrow> bool" where
  "is_warning e = (case e of IoEmit (Mqtt_warning k) \<Rightarrow> True | _ \<Rightarrow> False)"

definition dispatch_outcomes :: "effect list \<Rightarrow> nat" where
  "dispatch_outcomes effs = publishes_on ROBOT_ORDERS effs + length (filter is_warning effs)"

definition status_of :: "world \<Rightarrow> nat \<Rightarrow> string option" where
  "status_of w orderId =
     (case filter (\<lambda>r. r_id r = orderId) (rows (db w)) of [] \<Rightarrow> None | r # _ \<Rightarrow> Some (r_status r))"

text \<open>The row update of \<open>updateOrderStatus\<close>, under a name.\<close>

definition set_status :: "db_state \<Rightarrow> nat \<Rightarrow> string \<Rightarrow> order_row \<Rightarrow> order_row" where
  "set_status d k s r = (if r_id r = k then r\<lparr>r_status := s, r_updated_at := now d\<rparr> else r)"

section \<open>Sample data\<close>

definition sample_item :: "string \<Rightarrow> int \<Rightarrow> rat \<Rightarrow> item" where
  "sample_item n q p = \<lparr>i_name = Some n, i_title = None, i_quantity = Some q, i_count = None,
                        i_price = Some p\<rparr>"

definition tea :: "int \<Rightarrow> item" where
  "tea q = sample_item ''Tea'' q 2"

definition sample_row :: "nat \<Rightarrow> string \<Rightarrow> nat \<Rightarrow> order_row" where
  "sample_row i s t =
     \<lparr>r_id = i, r_tableId = Some (JStr ''T5''), r_tableLocation = None, r_restaurantId = None,
      r_items = [\<lparr>name = ''Tea'', quantity = 3, price = 2, totalItemPrice = 6\<rparr>],
      r_totalPrice = 6, r_status = s, r_created_at = t, r_updated_at = t\<rparr>"

definition sample_db :: "order_row list \<Rightarrow> db_state" where
  "sample_db rs = \<lparr>rows = rs, auto_increment = 10, now = 100, query_err = None\<rparr>"

definition sample_world :: "order_row list \<Rightarrow> bool \<Rightarrow> world" where
  "sample_world rs c =
     \<lparr>db = sample_db rs, io = True,
      mqttService = Some \<lparr>isConnected = c, client_err = None\<rparr>\<rparr>"

definition sample_body :: "item list \<Rightarrow> rat option \<Rightarrow> submit_body" where
  "sample_body its t =
     \<lparr>b_tableId = Some (JStr ''T5''), b_tableLocation = None, b_restaurantId = None,
      b_items = object_array its, b_totalPrice = t\<rparr>"

definition sample_order :: "item list \<Rightarrow> rat option \<Rightarrow> orderData" where
  "sample_order its t =
     \<lparr>od_tableId = Some (JStr ''T5''), od_tableLocation = None, od_restaurantId = None,
      od_items = object_array its, od_totalPrice = t\<rparr>"

definition sample_echo :: "item list \<Rightarrow> rat option \<Rightarrow> submit_echo" where
  "sample_echo its t =
     \<lparr>e_id = 10, e_tableId = Some (JStr ''T5''), e_tableLocation = None, e_restaurantId = None,
      e_items = object_array its, e_totalPrice = t, e_status = ''pending''\<rparr>"

section \<open>Consolidation: lemmas\<close>

text \<open>The definitions that evaluate a consolidation on given items.\<close>

lemmas item_defs = tea_def sample_item_def forEach_item_def itemMap_has_def itemName_def
  itemQuantity_def rawQuantity_def itemPrice_def str_or_def num_or_def parseInt_def
  object_array_def

lemma itemName_nonempty: "itemName it \<noteq> []"
  by (simp add: itemName_def str_or_def unnamed_label_def split: option.splits)

lemma names_itemMap_bump: "map name (itemMap_bump m k q) = map name m"
  by (induction m) auto

lemma names_forEach_item:
  "map name (forEach_item m it) =
     (if itemName it \<in> set (map name m) then map name m else map name m @ [itemName it])"
  by (simp add: forEach_item_def itemMap_has_def names_itemMap_bump)

lemma line_ok_itemMap_bump: "list_all line_ok m \<Longrightarrow> list_all line_ok (itemMap_bump m k q)"
  by (induction m) (auto simp: line_ok_def)

lemma line_ok_forEach_item: "list_all line_ok m \<Longrightarrow> list_all line_ok (forEach_item m it)"
  by (simp add: forEach_item_def line_ok_itemMap_bump line_ok_def itemName_nonempty)

lemma distinct_forEach_item:
  "distinct (map name m) \<Longrightarrow> distinct (map name (forEach_item m it))"
  by (simp add: names_forEach_item)

lemma foldl_forEach_inv:
  "distinct (map name m) \<Longrightarrow> list_all line_ok m \<Longrightarrow>
   distinct (map name (foldl forEach_item m xs)) \<and> list_all line_ok (foldl forEach_item m xs)"
  by (induction xs arbitrary: m) (simp_all add: distinct_forEach_item line_ok_forEach_item)

text \<open>Processing a stored line again appends it unchanged, unless its quantity is 0, which
  \<open>item.quantity || item.count || 1\<close> reads as 1, or of magnitude \<open>10^21\<close> or more, which
  \<open>parseInt\<close> reads as its leading digit.\<close>

lemma parseInt_small: "\<bar>n\<bar> < 10 ^ 21 \<Longrightarrow> parseInt n = n"
  by (simp add: parseInt_def)

lemma forEach_item_line_json:
  "name l \<notin> set (map name acc) \<Longrightarrow> line_ok l \<Longrightarrow> quantity l \<noteq> 0 \<Longrightarrow>
   \<bar>quantity l\<bar> < 10 ^ 21 \<Longrightarrow> forEach_item acc (line_json l) = acc @ [l]"
  by (simp add: forEach_item_def itemMap_has_def line_json_def itemName_def itemQuantity_def
      rawQuantity_def itemPrice_def str_or_def num_or_def line_ok_def parseInt_small)

lemma replay_lines:
  "distinct (map name (acc @ ls)) \<Longrightarrow> list_all line_ok ls \<Longrightarrow>
   \<forall>l\<in>set ls. quantity l \<noteq> 0 \<and> \<bar>quantity l\<bar> < 10 ^ 21 \<Longrightarrow>
   foldl forEach_item acc (map line_json ls) = acc @ ls"
proof (induction ls arbitrary: acc)
  case Nil
  then show ?case by simp
next
  case (Cons l ls)
  have "forEach_item acc (line_json l) = acc @ [l]"
    using Cons.prems by (intro forEach_item_line_json) auto
  moreover have "foldl forEach_item (acc @ [l]) (map line_json ls) = (acc @ [l]) @ ls"
    using Cons.prems by (intro Cons.IH) auto
  ultimately show ?case by simp
qed

lemma names_foldl:
  "map name (foldl forEach_item m xs) =
     foldl (\<lambda>ns n. if n \<in> set ns then ns else ns @ [n]) (map name m) (map itemName xs)"
  by (induction xs arbitrary: m) (simp_all add: names_forEach_item)

lemma foldl_first_seen:
  "foldl (\<lambda>ns n. if n \<in> set ns then ns else ns @ [n]) acc ns' =
     acc @ filter (\<lambda>n. n \<notin> set acc) (first_seen ns')"
proof (induction ns' arbitrary: acc)
  case Nil
  then show ?case by simp
next
  case (Cons x xs)
  show ?case
  proof (cases "x \<in> set acc")
    case True
    then have "filter (\<lambda>n. n \<notin> set acc) (filter (\<lambda>y. y \<noteq> x) (first_seen xs))
        = filter (\<lambda>n. n \<notin> set acc) (first_seen xs)"
      by (auto intro: filter_cong)
    with True Cons show ?thesis
      by simp
  next
    case False
    have "filter (\<lambda>n. n \<notin> set (acc @ [x])) (first_seen xs)
        = filter (\<lambda>n. n \<notin> set acc) (filter (\<lambda>y. y \<noteq> x) (first_seen xs))"
      by (auto intro: filter_cong)
    with False Cons.IH [of "acc @ [x]"] show ?thesis
      by simp
  qed
qed

lemma those_map_Some: "those (map Some xs) = Some xs"
  by (induction xs) simp_all

lemma object_array_eqD: "object_array xs = object_array ys \<Longrightarrow> xs = ys"
  by (simp add: object_array_def inj_map_eq_map)

lemma processOrderItems_objects:
  "processOrderItems (object_array xs) = foldl forEach_item [] xs"
  by (simp add: object_array_def those_map_Some)

lemma processOrderItems_inv:
  "distinct (map name (processOrderItems items)) \<and> list_all line_ok (processOrderItems items)"
proof (cases items)
  case (ItemArray ys)
  show ?thesis
  proof (cases "those ys")
    case None
    with ItemArray show ?thesis by simp
  next
    case (Some objects)
    with ItemArray foldl_forEach_inv [of "[]" objects] show ?thesis by simp
  qed
qed simp_all

lemma names_processOrderItems:
  "map name (processOrderItems (object_array xs)) = first_seen (map itemName xs)"
  by (simp add: processOrderItems_objects names_foldl foldl_first_seen)

lemma qty_of_bump:
  "k \<in> set (map name m) \<Longrightarrow>
   qty_of (itemMap_bump m k q) k' = qty_of m k' + (if k' = k then q else 0)"
  by (induction m) (auto simp: qty_of_def)

lemma qty_of_append_new:
  "k \<notin> set (map name m) \<Longrightarrow>
   qty_of (m @ [l]) k' =
     (if k' \<in> set (map name m) then qty_of m k' else if name l = k' then quantity l else 0)"
  by (induction m) (auto simp: qty_of_def)

lemma qty_of_notin: "k \<notin> set (map name m) \<Longrightarrow> qty_of m k = 0"
  by (induction m) (auto simp: qty_of_def)

lemma qty_of_forEach_item:
  "qty_of (forEach_item m it) k =
     qty_of m k + (if itemName it = k then itemQuantity it else 0)"
  by (auto simp: forEach_item_def itemMap_has_def qty_of_bump qty_of_append_new qty_of_notin)

lemma qty_of_foldl:
  "qty_of (foldl forEach_item m xs) k =
     qty_of m k + sum_list (map itemQuantity (filter (\<lambda>x. itemName x = k) xs))"
  by (induction xs arbitrary: m) (simp_all add: qty_of_forEach_item)

lemma qty_of_member:
  "distinct (map name m) \<Longrightarrow> l \<in> set m \<Longrightarrow> qty_of m (name l) = quantity l"
  by (induction m) (auto simp: qty_of_def)

lemma quantity_processOrderItems:
  "l \<in> set (processOrderItems (object_array xs)) \<Longrightarrow>
   quantity l = sum_list (map itemQuantity (filter (\<lambda>x. itemName x = name l) xs))"
  using qty_of_member [of "foldl forEach_item [] xs" l] foldl_forEach_inv [of "[]" xs]
    qty_of_foldl [of "[]" xs "name l"]
  by (simp add: qty_of_def processOrderItems_objects)

lemma price_of_bump: "price_of (itemMap_bump m k q) k' = price_of m k'"
  by (induction m) (auto simp: price_of_def)

lemma price_of_append_new:
  "k \<notin> set (map name m) \<Longrightarrow>
   price_of (m @ [l]) k' =
     (if k' \<in> set (map name m) then price_of m k' else if name l = k' then price l else 0)"
  by (induction m) (auto simp: price_of_def)

lemma price_of_forEach_item:
  "price_of (forEach_item m it) k =
     (if k \<in> set (map name m) then price_of m k
      else if itemName it = k then itemPrice it else 0)"
proof (cases "itemName it \<in> set (map name m)")
  case True
  then have "forEach_item m it = itemMap_bump m (itemName it) (itemQuantity it)"
    by (simp add: forEach_item_def itemMap_has_def)
  moreover have "k \<notin> set (map name m) \<Longrightarrow> price_of m k = 0"
    by (induction m) (auto simp: price_of_def)
  ultimately show ?thesis using True by (auto simp: price_of_bump)
next
  case False
  then show ?thesis
    by (simp add: forEach_item_def itemMap_has_def price_of_append_new)
qed

lemma price_of_foldl:
  "price_of (foldl forEach_item m xs) k =
     (if k \<in> set (map name m) then price_of m k else first_price xs k)"
proof (induction xs arbitrary: m)
  case Nil
  have "k \<notin> set (map name m) \<Longrightarrow> price_of m k = 0"
    by (induction m) (auto simp: price_of_def)
  then show ?case by (simp add: first_price_def)
next
  case (Cons x xs)
  show ?case
    by (simp add: Cons.IH price_of_forEach_item names_forEach_item first_price_def)
qed

lemma price_of_member:
  "distinct (map name m) \<Longrightarrow> l \<in> set m \<Longrightarrow> price_of m (name l) = price l"
  by (induction m) (auto simp: price_of_def)

lemma price_processOrderItems:
  "l \<in> set (processOrderItems (object_array xs)) \<Longrightarrow> price l = first_price xs (name l)"
  using price_of_member [of "foldl forEach_item [] xs" l] foldl_forEach_inv [of "[]" xs]
    price_of_foldl [of "[]" xs "name l"]
  by (simp add: processOrderItems_objects)

text \<open>The stored total, said from the items alone.\<close>

lemma lines_total_grouped: "lines_total (processOrderItems (object_array xs)) = grouped_total xs"
proof -
  let ?ls = "processOrderItems (object_array xs)"
  have "map (\<lambda>l. price l * of_int (quantity l)) ?ls
      = map (\<lambda>l. first_price xs (name l) * of_int (summed_quantity xs (name l))) ?ls"
    by (rule map_cong [OF refl])
      (simp add: price_processOrderItems quantity_processOrderItems summed_quantity_def)
  also have "\<dots> = map (\<lambda>k. first_price xs k * of_int (summed_quantity xs k)) (map name ?ls)"
    by (simp add: comp_def)
  finally show ?thesis
    by (simp add: lines_total_def grouped_total_def names_processOrderItems)
qed

text \<open>The route's mapping of the items changes nothing that the consolidation reads.\<close>

lemma forEach_item_map_item: "forEach_item m (map_item x) = forEach_item m x"
proof -
  have "itemName (map_item x) = itemName x"
    by (simp add: itemName_def map_item_def str_or_def unnamed_label_def split: option.splits)
  moreover have "itemQuantity (map_item x) = itemQuantity x"
    by (simp add: itemQuantity_def rawQuantity_def map_item_def num_or_def
        split: option.splits)
  moreover have "itemPrice (map_item x) = itemPrice x"
    by (simp add: itemPrice_def map_item_def num_or_def split: option.splits)
  ultimately show ?thesis by (simp add: forEach_item_def)
qed

lemma processOrderItems_map_item:
  "processOrderItems (object_array (map map_item xs)) = processOrderItems (object_array xs)"
proof -
  have "foldl forEach_item m (map map_item xs) = foldl forEach_item m xs" for m
    by (induction xs arbitrary: m) (simp_all add: forEach_item_map_item)
  then show ?thesis by (simp add: processOrderItems_objects)
qed

lemma set_first_seen: "set (first_seen ns) = set ns"
  by (induction ns) auto

lemma sum_list_ge_one:
  fixes f :: "'a \<Rightarrow> int"
  shows "ys \<noteq> [] \<Longrightarrow> \<forall>y\<in>set ys. 1 \<le> f y \<Longrightarrow> 1 \<le> (\<Sum>y\<leftarrow>ys. f y)"
proof (induction ys)
  case Nil
  then show ?case by simp
next
  case (Cons y ys)
  show ?case
  proof (cases "ys = []")
    case True
    with Cons.prems show ?thesis by simp
  next
    case False
    with Cons have "1 \<le> (\<Sum>y\<leftarrow>ys. f y)" by simp
    moreover have "1 \<le> f y" using Cons.prems by simp
    ultimately show ?thesis by simp
  qed
qed

lemma member_le_sum_list_int:
  fixes f :: "'a \<Rightarrow> int"
  shows "\<forall>y\<in>set ys. 0 \<le> f y \<Longrightarrow> x \<in> set ys \<Longrightarrow> f x \<le> (\<Sum>y\<leftarrow>ys. f y)"
proof (induction ys)
  case Nil
  then show ?case by simp
next
  case (Cons y ys)
  have nn: "0 \<le> (\<Sum>y\<leftarrow>ys. f y)"
    using Cons.prems(1) by (intro sum_list_nonneg) auto
  show ?case
  proof (cases "x = y")
    case True
    with nn show ?thesis by simp
  next
    case False
    with Cons have "f x \<le> (\<Sum>y\<leftarrow>ys. f y)" by simp
    moreover have "0 \<le> f y" using Cons.prems(1) by simp
    ultimately show ?thesis by simp
  qed
qed

lemma sum_list_filter_le:
  fixes f :: "'a \<Rightarrow> int"
  shows "\<forall>y\<in>set ys. 0 \<le> f y \<Longrightarrow> (\<Sum>y\<leftarrow>filter P ys. f y) \<le> (\<Sum>y\<leftarrow>ys. f y)"
  by (induction ys) auto

section \<open>The order table: lemmas\<close>

lemma filter_id_map:
  assumes "\<And>r. r_id (f r) = r_id r"
  shows "filter (\<lambda>r. r_id r = k) (map f rs) = map f (filter (\<lambda>r. r_id r = k) rs)"
  by (induction rs) (simp_all add: assms)

lemma getOrderById_SomeD:
  assumes "getOrderById d k = Inr (Some ord)"
  shows "query_err d = None \<and>
         (\<exists>r rs. filter (\<lambda>r. r_id r = k) (rows d) = r # rs \<and> ord = read_row r)"
  using assms by (auto simp: getOrderById_def split: option.splits list.splits)

lemma r_status_read_row: "r_status (read_row r) = r_status r"
  by (simp add: read_row_def Let_def)

lemma r_id_set_status: "r_id (set_status d k s r) = r_id r"
  by (simp add: set_status_def)

lemma updateOrderStatus_rows:
  "query_err d = None \<Longrightarrow>
   updateOrderStatus d k s = Inr (d\<lparr>rows := map (set_status d k s) (rows d)\<rparr>)"
  unfolding updateOrderStatus_def set_status_def by simp

lemma filter_set_status:
  "filter (\<lambda>r. r_id r = k) (map (set_status d k s) rs) =
     map (set_status d k s) (filter (\<lambda>r. r_id r = k) rs)"
  by (rule filter_id_map) (rule r_id_set_status)

text \<open>Updating the status of an order that is found succeeds, and the order is then found
  with the new status.\<close>

lemma updateOrderStatus_found:
  assumes "getOrderById d k = Inr (Some ord)"
  shows "\<exists>d' ord'. updateOrderStatus d k s = Inr d' \<and> getOrderById d' k = Inr (Some ord')
           \<and> r_status ord' = s
           \<and> (case filter (\<lambda>r. r_id r = k) (rows d') of [] \<Rightarrow> None
               | r # _ \<Rightarrow> Some (r_status r)) = Some s"
proof -
  from getOrderById_SomeD [OF assms] obtain r rs where
    e: "query_err d = None" and f: "filter (\<lambda>r. r_id r = k) (rows d) = r # rs"
    by blast
  define d' where "d' = d\<lparr>rows := map (set_status d k s) (rows d)\<rparr>"
  have "r \<in> set (filter (\<lambda>r. r_id r = k) (rows d))" by (simp add: f)
  then have k: "r_id r = k" by simp
  have u: "updateOrderStatus d k s = Inr d'"
    using e by (simp add: updateOrderStatus_rows d'_def)
  have fl: "filter (\<lambda>r. r_id r = k) (rows d') = set_status d k s r # map (set_status d k s) rs"
    by (simp add: d'_def filter_set_status f)
  have st: "r_status (set_status d k s r) = s"
    using k by (simp add: set_status_def)
  have e': "query_err d' = None" using e by (simp add: d'_def)
  have g: "getOrderById d' k = Inr (Some (read_row (set_status d k s r)))"
    unfolding getOrderById_def by (simp add: e' fl)
  show ?thesis
    using u g st fl by (simp add: r_status_read_row)
qed

section \<open>The status update: lemmas\<close>

lemma ready_allowed: "''ready'' \<in> set allowedStatuses"
  by (simp add: allowedStatuses_def)

text \<open>The handler on an order that is found, with an allowed status.\<close>

lemma put_status_found:
  assumes g0: "getOrderById (db w) k = Inr (Some ord)"
    and u: "updateOrderStatus (db w) k s = Inr d'"
    and g1: "getOrderById d' k = Inr (Some upd)"
    and s: "s \<in> set allowedStatuses"
  shows "put_status w k (Some s) =
     (w\<lparr>db := d'\<rparr>,
      Status_ok k (r_status ord) s
        (if s = ''ready''
         then (case mqttService w of None \<Rightarrow> None | Some m \<Rightarrow> Some (isConnected m))
         else Some False),
      (if mqtt_connected w
       then (case mqttService w of
               Some m \<Rightarrow> snd (publishOrderStatusUpdate m k (r_status ord) s)
             | None \<Rightarrow> [])
       else [])
      @ (if s = ''ready'' \<and> mqtt_connected w
         then (case mqttService w of
                 Some m \<Rightarrow>
                   (case sendOrderToRobot m (robot_order_of upd) of
                      (Inr ok, effs) \<Rightarrow> effs @ io_emit w (Order_sent_to_robot True k)
                    | (Inl err, effs) \<Rightarrow> effs @ io_emit w (Order_sent_to_robot False k))
               | None \<Rightarrow> io_emit w (Order_sent_to_robot False k))
         else if s = ''ready'' \<and> \<not> mqtt_connected w then io_emit w (Mqtt_warning k)
         else [])
      @ io_emit w (Order_status_updated k (r_status ord) s None (Some upd)))"
proof -
  have ne: "s \<noteq> []" using s by (auto simp: allowedStatuses_def)
  show ?thesis
    unfolding put_status_def
    by (simp add: g0 u g1 s ne Let_def split: option.splits)
qed

lemma status_of_db: "status_of (w\<lparr>db := d'\<rparr>) k =
    (case filter (\<lambda>r. r_id r = k) (rows d') of [] \<Rightarrow> None | r # _ \<Rightarrow> Some (r_status r))"
  by (simp add: status_of_def)

lemma delete_order_found:
  assumes g0: "getOrderById (db w) k = Inr (Some ord)"
    and u: "updateOrderStatus (db w) k ''cancelled'' = Inr d'"
  shows "fst (delete_order w k) = w\<lparr>db := d'\<rparr> \<and> fst (snd (delete_order w k)) = Cancel_ok k"
  unfolding delete_order_def by (simp add: g0 u)

lemma auto_update_found:
  assumes g0: "getOrderById (db w) k = Inr (Some ord)"
    and u: "updateOrderStatus (db w) k ''delivered'' = Inr d'"
    and k: "k \<noteq> 0"
  shows "post_auto_update_status w \<lparr>a_orderId = Some k, a_status = Some ''delivered'', a_source = src\<rparr>
       = (w\<lparr>db := d'\<rparr>, Auto_ok k (r_status ord) ''delivered'' (str_or src ''robot''),
          io_emit w (Order_status_updated k (r_status ord) ''delivered''
                       (Some (str_or src ''robot'')) None))"
  unfolding post_auto_update_status_def
  by (simp add: g0 u k allowedAutoStatuses_def Let_def)

lemma auto_update_refused:
  assumes g0: "getOrderById (db w) k = Inr (Some ord)"
    and k: "k \<noteq> 0" and s: "s \<noteq> ''delivered''" "s \<noteq> []"
  shows "post_auto_update_status w \<lparr>a_orderId = Some k, a_status = Some s, a_source = src\<rparr>
       = (w, Failure 400 ''This status cannot be auto-updated'', [])"
  unfolding post_auto_update_status_def
  by (simp add: g0 k s allowedAutoStatuses_def)

section \<open>Submission: lemmas\<close>

lemma foldl_total:
  "foldl (\<lambda>total l. total + price l * of_int (quantity l)) a ls = a + lines_total ls"
  by (induction ls arbitrary: a) (simp_all add: lines_total_def)

lemma calculateTotalPrice_eq: "calculateTotalPrice items = lines_total (processOrderItems items)"
  by (simp add: calculateTotalPrice_def foldl_total)

lemma createOrder_InrD:
  assumes "createOrder d od = (d', Inr k)"
  shows "query_err d = None \<and> k = auto_increment d \<and> query_err d' = None \<and>
         (\<exists>r. rows d' = rows d @ [r] \<and> r_id r = k \<and> r_status r = ''pending''
              \<and> r_items r = processOrderItems (od_items od)
              \<and> r_totalPrice r = lines_total (r_items r))"
proof (cases "query_err d")
  case (Some err)
  with assms show ?thesis by (simp add: createOrder_def Let_def)
next
  case None
  define r where "r = \<lparr>r_id = auto_increment d, r_tableId = od_tableId od,
      r_tableLocation = od_tableLocation od, r_restaurantId = od_restaurantId od,
      r_items = processOrderItems (od_items od),
      r_totalPrice = calculateTotalPrice (od_items od), r_status = ''pending'',
      r_created_at = now d, r_updated_at = now d\<rparr>"
  have "createOrder d od =
          (d\<lparr>rows := rows d @ [r], auto_increment := auto_increment d + 1\<rparr>,
           Inr (auto_increment d))"
    by (simp add: createOrder_def None r_def Let_def)
  with assms have d': "d' = d\<lparr>rows := rows d @ [r], auto_increment := auto_increment d + 1\<rparr>"
    and k: "k = auto_increment d"
    by auto
  have "rows d' = rows d @ [r]" "r_id r = k" "r_status r = ''pending''"
    "r_items r = processOrderItems (od_items od)" "r_totalPrice r = lines_total (r_items r)"
    by (simp_all add: d' k r_def calculateTotalPrice_eq)
  moreover have "query_err d' = None" by (simp add: d' None)
  ultimately show ?thesis using None k by blast
qed

lemma createOrder_ignores_total: "createOrder d (od\<lparr>od_totalPrice := t\<rparr>) = createOrder d od"
  by (simp add: createOrder_def split: option.splits)

lemma validateOrderData_Valid:
  "validateOrderData tableId items totalPrice = Valid \<longleftrightarrow>
     truthy tableId \<and> (\<exists>x xs. items = ItemArray (x # xs)) \<and> (\<exists>t. totalPrice = Some t \<and> 0 < t)"
  by (auto simp: validateOrderData_def neq_Nil_conv split: items_arg.splits option.splits)

lemma post_submit_invalid:
  "validateOrderData (b_tableId body) (b_items body) (b_totalPrice body) = Invalid msg \<Longrightarrow>
   post_submit w body = (w, Failure 400 msg, [])"
  by (simp add: post_submit_def)

lemma getOrderById_total: "query_err d = None \<Longrightarrow> \<exists>fo. getOrderById d k = Inr fo"
  by (cases "filter (\<lambda>r. r_id r = k) (rows d)") (simp_all add: getOrderById_def)

lemma createOrder_cases:
  "(query_err d = None \<longrightarrow> (\<exists>d'. createOrder d od = (d', Inr (auto_increment d)) \<and> query_err d' = None))
   \<and> (\<forall>err. query_err d = Some err \<longrightarrow> createOrder d od = (d, Inl err))"
  by (simp add: createOrder_def Let_def)

lemma post_submit_null:
  assumes v: "validateOrderData (b_tableId body) (b_items body) (b_totalPrice body) = Valid"
    and n: "map_items (b_items body) = None"
  shows "post_submit w body = (w, Failure 500 ''Failed to save order'', [])"
  unfolding post_submit_def by (simp add: v n)

lemma post_submit_valid:
  assumes v: "validateOrderData (b_tableId body) (b_items body) (b_totalPrice body) = Valid"
  shows "(\<forall>mapped. map_items (b_items body) = Some mapped \<longrightarrow> query_err (db w) = None \<longrightarrow>
            (\<exists>e. fst (snd (post_submit w body)) = Created (auto_increment (db w)) e))
       \<and> (\<exists>msg. fst (snd (post_submit w body)) = Failure 500 msg
            \<or> (\<exists>k e. fst (snd (post_submit w body)) = Created k e))"
proof (cases "map_items (b_items body)")
  case None
  then show ?thesis by (simp add: post_submit_null [OF v])
next
  case (Some mapped)
  let ?od = "\<lparr>od_tableId = b_tableId body, od_tableLocation = or_null (b_tableLocation body),
              od_restaurantId = or_null (b_restaurantId body),
              od_items = mapped, od_totalPrice = b_totalPrice body\<rparr>"
  show ?thesis
  proof (cases "query_err (db w)")
    case None
    from createOrder_cases [of "db w" ?od] None obtain d' where
      c: "createOrder (db w) ?od = (d', Inr (auto_increment (db w)))" and q': "query_err d' = None"
      by blast
    from getOrderById_total [OF q'] obtain fo where
      g: "getOrderById d' (auto_increment (db w)) = Inr fo" by blast
    have "\<exists>e. fst (snd (post_submit w body)) = Created (auto_increment (db w)) e"
      unfolding post_submit_def by (simp add: v Some c g Let_def)
    then show ?thesis by blast
  next
    case (Some err)
    from createOrder_cases [of "db w" ?od] Some have
      c: "createOrder (db w) ?od = (db w, Inl err)" by blast
    have "post_submit w body = (w, Failure 500 (submit_error_message err), [])"
      unfolding post_submit_def by (simp add: v \<open>map_items (b_items body) = Some mapped\<close> c Let_def)
    with Some show ?thesis by simp
  qed
qed

lemma map_items_SomeD:
  assumes "validateOrderData (b_tableId body) (b_items body) (b_totalPrice body) = Valid"
    and "map_items (b_items body) = Some mapped"
  shows "\<exists>objects. b_items body = object_array objects
           \<and> mapped = object_array (map map_item objects)"
proof -
  from assms(1) obtain x xs where i: "b_items body = ItemArray (x # xs)"
    using validateOrderData_Valid [of "b_tableId body" "b_items body" "b_totalPrice body"]
    by blast
  from assms(2) i obtain objects where t: "those (x # xs) = Some objects"
    and m: "mapped = object_array (map map_item objects)"
    by (auto simp: map_items_def split: option.splits)
  have "ys = map Some zs" if "those ys = Some zs" for ys :: "item option list" and zs
    using that by (induction ys arbitrary: zs) (auto split: option.splits)
  from this [OF t] i m show ?thesis by (auto simp: object_array_def)
qed

lemma post_submit_CreatedD:
  assumes "post_submit w body = (w', Created k e, effs)"
  shows "e_totalPrice e = b_totalPrice body \<and>
         (\<exists>objects r. b_items body = object_array objects
              \<and> map_items (b_items body) = Some (object_array (map map_item objects))
              \<and> e_items e = object_array (map map_item objects)
              \<and> rows (db w') = rows (db w) @ [r] \<and> r_id r = k
              \<and> r_items r = processOrderItems (object_array (map map_item objects))
              \<and> r_totalPrice r = lines_total (r_items r))"
proof (cases "validateOrderData (b_tableId body) (b_items body) (b_totalPrice body)")
  case (Invalid msg)
  with assms show ?thesis by (simp add: post_submit_invalid)
next
  case Valid
  show ?thesis
  proof (cases "map_items (b_items body)")
    case None
    with assms Valid show ?thesis by (simp add: post_submit_null)
  next
    case (Some mapped)
    from map_items_SomeD [OF Valid Some] obtain objects where
      o: "b_items body = object_array objects" "mapped = object_array (map map_item objects)"
      by blast
    let ?od = "\<lparr>od_tableId = b_tableId body, od_tableLocation = or_null (b_tableLocation body),
                od_restaurantId = or_null (b_restaurantId body),
                od_items = mapped, od_totalPrice = b_totalPrice body\<rparr>"
    obtain d' res where c: "createOrder (db w) ?od = (d', res)"
      by (cases "createOrder (db w) ?od")
    show ?thesis
    proof (cases res)
      case (Inl err)
      have "post_submit w body = (w, Failure 500 (submit_error_message err), [])"
        unfolding post_submit_def by (simp add: Valid Some c Inl Let_def)
      with assms show ?thesis by simp
    next
      case (Inr k')
      from createOrder_InrD [OF c [unfolded Inr]] obtain r where
        q: "query_err d' = None" and r: "rows d' = rows (db w) @ [r]" "r_id r = k'"
          "r_items r = processOrderItems (od_items ?od)"
          "r_totalPrice r = lines_total (r_items r)"
        by blast
      from getOrderById_total [OF q] obtain fo where g: "getOrderById d' k' = Inr fo"
        by blast
      have "\<exists>e' effs'. post_submit w body = (w\<lparr>db := d'\<rparr>, Created k' e', effs')
              \<and> e_totalPrice e' = b_totalPrice body \<and> e_items e' = mapped"
        unfolding post_submit_def by (simp add: Valid Some c Inr g Let_def)
      with assms have "w' = w\<lparr>db := d'\<rparr>" "k = k'"
        "e_totalPrice e = b_totalPrice body" "e_items e = mapped"
        by auto
      moreover have "r_items r = processOrderItems mapped"
        using r(3) by simp
      ultimately show ?thesis using r o Some by auto
    qed
  qed
qed

lemma updateOrderItems_InrD:
  assumes "updateOrderItems d k newItems = Inr d'"
  shows "\<forall>r\<in>set (rows d'). r_id r = k \<longrightarrow>
           r_items r = processOrderItems newItems \<and> r_totalPrice r = lines_total (r_items r)"
proof (cases "query_err d")
  case (Some err)
  with assms show ?thesis by (simp add: updateOrderItems_def Let_def)
next
  case None
  define f :: "order_row \<Rightarrow> order_row" where "f = (\<lambda>r. if r_id r = k
      then r\<lparr>r_items := processOrderItems newItems,
             r_totalPrice := foldl (\<lambda>total l. total + price l * of_int (quantity l)) 0
                               (processOrderItems newItems),
             r_updated_at := now d\<rparr>
      else r)"
  have "updateOrderItems d k newItems = Inr (d\<lparr>rows := map f (rows d)\<rparr>)"
    by (simp add: updateOrderItems_def None f_def Let_def)
  with assms have d': "rows d' = map f (rows d)" by auto
  have "r_id (f r) = k \<longrightarrow> r_items (f r) = processOrderItems newItems
          \<and> r_totalPrice (f r) = lines_total (r_items (f r))" for r
    by (simp add: f_def foldl_total)
  then show ?thesis by (simp add: d')
qed

section \<open>Listing and publishing: lemmas\<close>

lemma r_created_at_read_row: "r_created_at (read_row r) = r_created_at r"
  by (simp add: read_row_def Let_def)

lemma r_id_read_row: "r_id (read_row r) = r_id r"
  by (simp add: read_row_def Let_def)

lemma getPendingOrders_InrD:
  assumes "getPendingOrders d = Inr orders"
  shows "orders = map read_row
           (sort_key r_created_at
              (filter (\<lambda>r. r_status r \<notin> set [''completed'', ''cancelled'', ''delivered''])
                 (rows d)))"
  using assms by (cases "query_err d") (simp_all add: getPendingOrders_def)

section \<open>Properties\<close>

subsection \<open>Dispatch on the transition to ready (C1)\<close>

text \<open>One staff update to \<open>ready\<close> of an order that is found: the response, the stored
  order, and the effects that belong to the dispatch.\<close>

lemma ready_dispatch_effects:
  assumes found: "getOrderById (db w) orderId = Inr (Some existingOrder)"
  shows "\<exists>d' updatedOrder effs.
      put_status w orderId (Some ''ready'') =
        (w\<lparr>db := d'\<rparr>,
         Status_ok orderId (r_status existingOrder) ''ready''
           (case mqttService w of None \<Rightarrow> None | Some m \<Rightarrow> Some (isConnected m)),
         effs)
    \<and> getOrderById d' orderId = Inr (Some updatedOrder)
    \<and> r_status updatedOrder = ''ready''
    \<and> filter is_dispatch_effect effs =
        (case mqttService w of
           None \<Rightarrow> io_emit w (Mqtt_warning orderId)
         | Some m \<Rightarrow>
             if isConnected m
             then ClientPublish
                    \<lparr>p_topic = ROBOT_ORDERS,
                     p_payload =
                       Robot_order (r_id updatedOrder) (r_tableId updatedOrder)
                         (ro_table_location (robot_order_of updatedOrder))
                         (r_items updatedOrder) (r_totalPrice updatedOrder) ''normal'',
                     p_qos = 1, p_retain = False, p_dup = False\<rparr>
                  # io_emit w (Order_sent_to_robot (client_err m = None) orderId)
             else io_emit w (Mqtt_warning orderId))
    \<and> publishes_on ROBOT_ORDERS effs = (if mqtt_connected w then 1 else 0)
    \<and> (io w \<longrightarrow> dispatch_outcomes effs = 1)"
proof -
  from updateOrderStatus_found [OF found, of "''ready''"] obtain d' upd where
    u: "updateOrderStatus (db w) orderId ''ready'' = Inr d'"
    and g1: "getOrderById d' orderId = Inr (Some upd)"
    and su: "r_status upd = ''ready''"
    by blast
  note ps = put_status_found [OF found u g1 ready_allowed]
  note defs = mqtt_connected_def io_emit_def is_dispatch_effect_def is_warning_def
    dispatch_outcomes_def publishes_on_def sendOrderToRobot_def publishOrderStatusUpdate_def
    publish_def no_options_def num_or_def bool_or_def str_or_def robot_order_of_def
    ROBOT_ORDERS_def ORDERS_STATUS_UPDATE_def Let_def
  let ?effs = "snd (snd (put_status w orderId (Some ''ready'')))"
  have p: "put_status w orderId (Some ''ready'') =
        (w\<lparr>db := d'\<rparr>,
         Status_ok orderId (r_status existingOrder) ''ready''
           (case mqttService w of None \<Rightarrow> None | Some m \<Rightarrow> Some (isConnected m)),
         ?effs)"
    by (simp add: ps)
  have e: "filter is_dispatch_effect ?effs =
        (case mqttService w of
           None \<Rightarrow> io_emit w (Mqtt_warning orderId)
         | Some m \<Rightarrow>
             if isConnected m
             then ClientPublish
                    \<lparr>p_topic = ROBOT_ORDERS,
                     p_payload =
                       Robot_order (r_id upd) (r_tableId upd)
                         (ro_table_location (robot_order_of upd))
                         (r_items upd) (r_totalPrice upd) ''normal'',
                     p_qos = 1, p_retain = False, p_dup = False\<rparr>
                  # io_emit w (Order_sent_to_robot (client_err m = None) orderId)
             else io_emit w (Mqtt_warning orderId))
    \<and> publishes_on ROBOT_ORDERS ?effs = (if mqtt_connected w then 1 else 0)
    \<and> (io w \<longrightarrow> dispatch_outcomes ?effs = 1)"
  proof (cases "mqttService w")
    case None
    then show ?thesis by (simp add: ps defs)
  next
    case (Some m)
    show ?thesis
    proof (cases "isConnected m")
      case False
      with Some show ?thesis by (simp add: ps defs)
    next
      case True
      with Some show ?thesis
        by (cases "client_err m") (simp_all add: ps defs)
    qed
  qed
  from p g1 su e show ?thesis by blast
qed

text \<open>
  C1: a staff status update that sets an existing order to \<open>ready\<close> dispatches exactly
  once, whatever the order's previous status and whether or not the transport is
  available. With the service connected the dispatch is one call of the broker client's
  publish on the dispatch topic, carrying the updated order, followed by its report to
  the dashboards. With the transport down the attempt ends at the handler's connection
  test: nothing is published, \<open>robotNotified\<close> is false, and the dashboards get one warning
  in place of the report. A second such call on the same order, which is then already
  \<open>ready\<close>, dispatches again: nothing is remembered between calls. The count of one
  outcome per call, a publish or a warning, is for a router whose push channel is set, as
  the server sets it.
\<close>

theorem ready_dispatch_exactly_once:
  assumes found: "getOrderById (db w) orderId = Inr (Some existingOrder)"
  shows "\<exists>w' updatedOrder effs.
      put_status w orderId (Some ''ready'') =
        (w',
         Status_ok orderId (r_status existingOrder) ''ready''
           (case mqttService w of None \<Rightarrow> None | Some m \<Rightarrow> Some (isConnected m)),
         effs)
    \<and> getOrderById (db w') orderId = Inr (Some updatedOrder)
    \<and> r_status updatedOrder = ''ready''
    \<and> filter is_dispatch_effect effs =
        (case mqttService w of
           None \<Rightarrow> io_emit w (Mqtt_warning orderId)
         | Some m \<Rightarrow>
             if isConnected m
             then ClientPublish
                    \<lparr>p_topic = ROBOT_ORDERS,
                     p_payload =
                       Robot_order (r_id updatedOrder) (r_tableId updatedOrder)
                         (ro_table_location (robot_order_of updatedOrder))
                         (r_items updatedOrder) (r_totalPrice updatedOrder) ''normal'',
                     p_qos = 1, p_retain = False, p_dup = False\<rparr>
                  # io_emit w (Order_sent_to_robot (client_err m = None) orderId)
             else io_emit w (Mqtt_warning orderId))
    \<and> publishes_on ROBOT_ORDERS effs = (if mqtt_connected w then 1 else 0)
    \<and> (io w \<longrightarrow> dispatch_outcomes effs = 1)
    \<and> publishes_on ROBOT_ORDERS (snd (snd (put_status w' orderId (Some ''ready''))))
        = (if mqtt_connected w then 1 else 0)
    \<and> (io w \<longrightarrow> dispatch_outcomes (snd (snd (put_status w' orderId (Some ''ready'')))) = 1)
    \<and> (\<exists>robotNotified. fst (snd (put_status w' orderId (Some ''ready'')))
          = Status_ok orderId ''ready'' ''ready'' robotNotified)"
proof -
  from ready_dispatch_effects [OF found] obtain d' upd effs where
    p: "put_status w orderId (Some ''ready'') =
        (w\<lparr>db := d'\<rparr>,
         Status_ok orderId (r_status existingOrder) ''ready''
           (case mqttService w of None \<Rightarrow> None | Some m \<Rightarrow> Some (isConnected m)),
         effs)"
    and g1: "getOrderById d' orderId = Inr (Some upd)"
    and su: "r_status upd = ''ready''"
    and e: "filter is_dispatch_effect effs =
        (case mqttService w of
           None \<Rightarrow> io_emit w (Mqtt_warning orderId)
         | Some m \<Rightarrow>
             if isConnected m
             then ClientPublish
                    \<lparr>p_topic = ROBOT_ORDERS,
                     p_payload =
                       Robot_order (r_id upd) (r_tableId upd)
                         (ro_table_location (robot_order_of upd))
                         (r_items upd) (r_totalPrice upd) ''normal'',
                     p_qos = 1, p_retain = False, p_dup = False\<rparr>
                  # io_emit w (Order_sent_to_robot (client_err m = None) orderId)
             else io_emit w (Mqtt_warning orderId))"
      "publishes_on ROBOT_ORDERS effs = (if mqtt_connected w then 1 else 0)"
      "io w \<longrightarrow> dispatch_outcomes effs = 1"
    by blast
  let ?w1 = "w\<lparr>db := d'\<rparr>"
  have g1': "getOrderById (db ?w1) orderId = Inr (Some upd)"
    using g1 by simp
  from ready_dispatch_effects [OF g1'] obtain effs2 rn2 d2 where
    p2: "put_status ?w1 orderId (Some ''ready'') =
           (?w1\<lparr>db := d2\<rparr>, Status_ok orderId (r_status upd) ''ready'' rn2, effs2)"
    and e2: "publishes_on ROBOT_ORDERS effs2 = (if mqtt_connected ?w1 then 1 else 0)"
      "io ?w1 \<longrightarrow> dispatch_outcomes effs2 = 1"
    by blast
  have c: "mqtt_connected ?w1 = mqtt_connected w" "io ?w1 = io w"
    by (simp_all add: mqtt_connected_def)
  have second: "publishes_on ROBOT_ORDERS (snd (snd (put_status ?w1 orderId (Some ''ready''))))
        = (if mqtt_connected w then 1 else 0)"
    "io w \<longrightarrow> dispatch_outcomes (snd (snd (put_status ?w1 orderId (Some ''ready'')))) = 1"
    "\<exists>robotNotified. fst (snd (put_status ?w1 orderId (Some ''ready'')))
          = Status_ok orderId ''ready'' ''ready'' robotNotified"
    using p2 e2 c su by simp_all
  have "getOrderById (db ?w1) orderId = Inr (Some upd)" using g1 by simp
  with p su e second show ?thesis by blast
qed

theorem ready_dispatch_exactly_once_witness:
  "getOrderById (db (sample_world [sample_row 1 ''pending'' 50] True)) 1
     = Inr (Some (read_row (sample_row 1 ''pending'' 50)))
   \<and> publishes_on ROBOT_ORDERS
       (snd (snd (put_status (sample_world [sample_row 1 ''pending'' 50] True) 1
                    (Some ''ready'')))) = 1
   \<and> dispatch_outcomes
       (snd (snd (put_status (sample_world [sample_row 1 ''pending'' 50] True) 1
                    (Some ''ready'')))) = 1
   \<and> getOrderById (db (sample_world [sample_row 1 ''ready'' 50] False)) 1
     = Inr (Some (read_row (sample_row 1 ''ready'' 50)))
   \<and> publishes_on ROBOT_ORDERS
       (snd (snd (put_status (sample_world [sample_row 1 ''ready'' 50] False) 1
                    (Some ''ready'')))) = 0
   \<and> filter is_dispatch_effect
       (snd (snd (put_status (sample_world [sample_row 1 ''ready'' 50] False) 1
                    (Some ''ready'')))) = [IoEmit (Mqtt_warning 1)]
   \<and> dispatch_outcomes
       (snd (snd (put_status (sample_world [sample_row 1 ''ready'' 50] False) 1
                    (Some ''ready'')))) = 1"
proof -
  let ?up = "sample_world [sample_row 1 ''pending'' 50] True"
  let ?down = "sample_world [sample_row 1 ''ready'' 50] False"
  have h1: "getOrderById (db ?up) 1 = Inr (Some (read_row (sample_row 1 ''pending'' 50)))"
    by (simp add: getOrderById_def sample_world_def sample_db_def sample_row_def)
  have h2: "getOrderById (db ?down) 1 = Inr (Some (read_row (sample_row 1 ''ready'' 50)))"
    by (simp add: getOrderById_def sample_world_def sample_db_def sample_row_def)
  have c: "mqtt_connected ?up" "\<not> mqtt_connected ?down" "io ?up" "io ?down"
    "mqttService ?down = Some \<lparr>isConnected = False, client_err = None\<rparr>"
    by (simp_all add: mqtt_connected_def sample_world_def)
  from ready_dispatch_exactly_once [OF h1] c
  have up: "publishes_on ROBOT_ORDERS (snd (snd (put_status ?up 1 (Some ''ready'')))) = 1
      \<and> dispatch_outcomes (snd (snd (put_status ?up 1 (Some ''ready'')))) = 1"
    by auto
  from ready_dispatch_exactly_once [OF h2] c
  have down: "publishes_on ROBOT_ORDERS (snd (snd (put_status ?down 1 (Some ''ready'')))) = 0
      \<and> filter is_dispatch_effect (snd (snd (put_status ?down 1 (Some ''ready''))))
          = [IoEmit (Mqtt_warning 1)]
      \<and> dispatch_outcomes (snd (snd (put_status ?down 1 (Some ''ready'')))) = 1"
    by (auto simp: io_emit_def)
  from h1 h2 up down show ?thesis by blast
qed

subsection \<open>Terminal statuses (C2)\<close>

text \<open>
  C2, as stated: an order whose status is \<open>delivered\<close> or \<open>cancelled\<close> rejects every further
  transition request and keeps its status. No handler reads the current status before
  writing: a staff update of a delivered order to \<open>pending\<close> succeeds and is stored.
\<close>

theorem terminal_status_overwritten_counterexample:
  "status_of (sample_world [sample_row 1 ''delivered'' 50] True) 1 = Some ''delivered''
   \<and> fst (snd (put_status (sample_world [sample_row 1 ''delivered'' 50] True) 1 (Some ''pending'')))
       = Status_ok 1 ''delivered'' ''pending'' (Some False)
   \<and> status_of (fst (put_status (sample_world [sample_row 1 ''delivered'' 50] True) 1
                       (Some ''pending''))) 1 = Some ''pending''"
  by (simp add: put_status_def sample_world_def sample_db_def sample_row_def getOrderById_def
      updateOrderStatus_def allowedStatuses_def status_of_def r_status_read_row Let_def)

text \<open>
  C2, amended: the current status of an order plays no part in a transition request. On an
  order whose status is \<open>delivered\<close> or \<open>cancelled\<close>, a staff update to any of the five
  allowed statuses, an automated update to \<open>delivered\<close> and a soft-cancel each succeed and
  store the requested status. What is rejected, with the order unchanged, is what is
  rejected for every order: an automated update to a status other than \<open>delivered\<close>.
\<close>

theorem terminal_status_not_enforced:
  assumes found: "getOrderById (db w) orderId = Inr (Some existingOrder)"
    and terminal: "r_status existingOrder = ''delivered'' \<or> r_status existingOrder = ''cancelled''"
    and nz: "orderId \<noteq> 0"
  shows "(s \<in> set allowedStatuses \<longrightarrow>
            (\<exists>robotNotified. fst (snd (put_status w orderId (Some s)))
                = Status_ok orderId (r_status existingOrder) s robotNotified)
          \<and> status_of (fst (put_status w orderId (Some s))) orderId = Some s)
       \<and> fst (snd (delete_order w orderId)) = Cancel_ok orderId
       \<and> status_of (fst (delete_order w orderId)) orderId = Some ''cancelled''
       \<and> fst (snd (post_auto_update_status w
                      \<lparr>a_orderId = Some orderId, a_status = Some ''delivered'', a_source = src\<rparr>))
           = Auto_ok orderId (r_status existingOrder) ''delivered'' (str_or src ''robot'')
       \<and> status_of (fst (post_auto_update_status w
                      \<lparr>a_orderId = Some orderId, a_status = Some ''delivered'', a_source = src\<rparr>))
           orderId = Some ''delivered''
       \<and> (s \<noteq> ''delivered'' \<longrightarrow> s \<noteq> [] \<longrightarrow>
            post_auto_update_status w
              \<lparr>a_orderId = Some orderId, a_status = Some s, a_source = src\<rparr>
            = (w, Failure 400 ''This status cannot be auto-updated'', []))"
proof -
  have staff: "(\<exists>robotNotified. fst (snd (put_status w orderId (Some s)))
                = Status_ok orderId (r_status existingOrder) s robotNotified)
          \<and> status_of (fst (put_status w orderId (Some s))) orderId = Some s"
    if s: "s \<in> set allowedStatuses"
  proof -
    from updateOrderStatus_found [OF found, of s] obtain d' upd where
      u: "updateOrderStatus (db w) orderId s = Inr d'"
      and g1: "getOrderById d' orderId = Inr (Some upd)"
      and st: "(case filter (\<lambda>r. r_id r = orderId) (rows d') of [] \<Rightarrow> None
                | r # _ \<Rightarrow> Some (r_status r)) = Some s"
      by blast
    show ?thesis
      by (simp add: put_status_found [OF found u g1 s] status_of_db st)
  qed
  have del: "fst (snd (delete_order w orderId)) = Cancel_ok orderId
       \<and> status_of (fst (delete_order w orderId)) orderId = Some ''cancelled''"
  proof -
    from updateOrderStatus_found [OF found, of "''cancelled''"] obtain d' where
      u: "updateOrderStatus (db w) orderId ''cancelled'' = Inr d'"
      and st: "(case filter (\<lambda>r. r_id r = orderId) (rows d') of [] \<Rightarrow> None
                | r # _ \<Rightarrow> Some (r_status r)) = Some ''cancelled''"
      by blast
    show ?thesis
      by (simp add: delete_order_found [OF found u] status_of_db st)
  qed
  have auto: "fst (snd (post_auto_update_status w
                      \<lparr>a_orderId = Some orderId, a_status = Some ''delivered'', a_source = src\<rparr>))
           = Auto_ok orderId (r_status existingOrder) ''delivered'' (str_or src ''robot'')
       \<and> status_of (fst (post_auto_update_status w
                      \<lparr>a_orderId = Some orderId, a_status = Some ''delivered'', a_source = src\<rparr>))
           orderId = Some ''delivered''"
  proof -
    from updateOrderStatus_found [OF found, of "''delivered''"] obtain d' where
      u: "updateOrderStatus (db w) orderId ''delivered'' = Inr d'"
      and st: "(case filter (\<lambda>r. r_id r = orderId) (rows d') of [] \<Rightarrow> None
                | r # _ \<Rightarrow> Some (r_status r)) = Some ''delivered''"
      by blast
    show ?thesis
      by (simp add: auto_update_found [OF found u nz] status_of_db st)
  qed
  show ?thesis
    using staff del auto auto_update_refused [OF found nz] by blast
qed

theorem terminal_status_not_enforced_witness:
  "getOrderById (db (sample_world [sample_row 1 ''cancelled'' 50] False)) 1
     = Inr (Some (read_row (sample_row 1 ''cancelled'' 50)))
   \<and> r_status (read_row (sample_row 1 ''cancelled'' 50)) = ''cancelled''
   \<and> ''preparing'' \<in> set allowedStatuses
   \<and> status_of (fst (put_status (sample_world [sample_row 1 ''cancelled'' 50] False) 1
                       (Some ''preparing''))) 1 = Some ''preparing''
   \<and> status_of (fst (delete_order (sample_world [sample_row 1 ''cancelled'' 50] False) 1)) 1
       = Some ''cancelled''"
proof -
  have h: "getOrderById (db (sample_world [sample_row 1 ''cancelled'' 50] False)) 1
             = Inr (Some (read_row (sample_row 1 ''cancelled'' 50)))"
    by (simp add: getOrderById_def sample_world_def sample_db_def sample_row_def)
  have t: "r_status (read_row (sample_row 1 ''cancelled'' 50)) = ''delivered''
         \<or> r_status (read_row (sample_row 1 ''cancelled'' 50)) = ''cancelled''"
    by (simp add: r_status_read_row sample_row_def)
  have a: "''preparing'' \<in> set allowedStatuses"
    by (simp add: allowedStatuses_def)
  have n: "(1::nat) \<noteq> 0" by simp
  show ?thesis
    using h t a terminal_status_not_enforced [OF h t n, of "''preparing''" None]
    by (simp add: r_status_read_row sample_row_def)
qed

subsection \<open>Stored totals (C3)\<close>

text \<open>
  C3: after a write that touches an order's items, the stored total is the sum of unit
  price times quantity over the stored, consolidated items: for the row inserted by
  \<open>createOrder\<close> (also when reached through the submit route) and for every row rewritten
  by \<open>updateOrderItems\<close>. The caller's total does not reach the row: \<open>createOrder\<close> gives
  the same result whatever total its argument carries.
\<close>

theorem stored_total_is_sum_of_lines:
  "(createOrder d od = (d', Inr newId) \<longrightarrow>
      (\<exists>r. rows d' = rows d @ [r] \<and> r_id r = newId
           \<and> r_items r = processOrderItems (od_items od)
           \<and> r_totalPrice r = (\<Sum>l\<leftarrow>r_items r. price l * of_int (quantity l))))
   \<and> createOrder d (od\<lparr>od_totalPrice := t\<rparr>) = createOrder d od
   \<and> (post_submit w body = (w', Created submittedId e, effs) \<longrightarrow>
      (\<exists>mapped r. map_items (b_items body) = Some mapped
           \<and> rows (db w') = rows (db w) @ [r] \<and> r_id r = submittedId
           \<and> r_items r = processOrderItems mapped
           \<and> r_totalPrice r = (\<Sum>l\<leftarrow>r_items r. price l * of_int (quantity l))))
   \<and> (updateOrderItems d0 orderId newItems = Inr d0' \<longrightarrow>
      (\<forall>r\<in>set (rows d0'). r_id r = orderId \<longrightarrow>
           r_items r = processOrderItems newItems
           \<and> r_totalPrice r = (\<Sum>l\<leftarrow>r_items r. price l * of_int (quantity l))))"
proof -
  have a: "createOrder d od = (d', Inr newId) \<longrightarrow>
      (\<exists>r. rows d' = rows d @ [r] \<and> r_id r = newId
           \<and> r_items r = processOrderItems (od_items od)
           \<and> r_totalPrice r = (\<Sum>l\<leftarrow>r_items r. price l * of_int (quantity l)))"
    using createOrder_InrD [of d od d' newId] unfolding lines_total_def by blast
  have b: "post_submit w body = (w', Created submittedId e, effs) \<longrightarrow>
      (\<exists>mapped r. map_items (b_items body) = Some mapped
           \<and> rows (db w') = rows (db w) @ [r] \<and> r_id r = submittedId
           \<and> r_items r = processOrderItems mapped
           \<and> r_totalPrice r = (\<Sum>l\<leftarrow>r_items r. price l * of_int (quantity l)))"
    using post_submit_CreatedD [of w body w' submittedId e effs] unfolding lines_total_def
    by blast
  have c: "updateOrderItems d0 orderId newItems = Inr d0' \<longrightarrow>
      (\<forall>r\<in>set (rows d0'). r_id r = orderId \<longrightarrow>
           r_items r = processOrderItems newItems
           \<and> r_totalPrice r = (\<Sum>l\<leftarrow>r_items r. price l * of_int (quantity l)))"
    using updateOrderItems_InrD [of d0 orderId newItems d0'] unfolding lines_total_def
    by blast
  show ?thesis
    using a b c createOrder_ignores_total by blast
qed

theorem stored_total_is_sum_of_lines_witness:
  "createOrder (sample_db []) (sample_order [tea 1, tea 2] (Some 100))
     = (fst (createOrder (sample_db []) (sample_order [tea 1, tea 2] (Some 100))), Inr 10)
   \<and> (\<exists>r. rows (fst (createOrder (sample_db []) (sample_order [tea 1, tea 2] (Some 100)))) = [r]
          \<and> r_id r = 10 \<and> r_totalPrice r = 6)
   \<and> post_submit (sample_world [] True) (sample_body [tea 1, tea 2] (Some 100))
     = (fst (post_submit (sample_world [] True) (sample_body [tea 1, tea 2] (Some 100))),
        Created 10 (sample_echo [tea 1, tea 2] (Some 100)),
        snd (snd (post_submit (sample_world [] True) (sample_body [tea 1, tea 2] (Some 100)))))
   \<and> (\<exists>r. rows (db (fst (post_submit (sample_world [] True)
                           (sample_body [tea 1, tea 2] (Some 100))))) = [r]
          \<and> r_id r = 10 \<and> r_totalPrice r = 6)
   \<and> updateOrderItems (sample_db [sample_row 1 ''pending'' 50]) 1 (object_array [tea 1, tea 1])
     = Inr (sample_db [(sample_row 1 ''pending'' 50)
              \<lparr>r_items := [\<lparr>name = ''Tea'', quantity = 2, price = 2, totalItemPrice = 4\<rparr>],
               r_totalPrice := 4, r_updated_at := 100\<rparr>])
   \<and> list_all (\<lambda>r. r_totalPrice r = (\<Sum>l\<leftarrow>r_items r. price l * of_int (quantity l)))
        (rows (sample_db [(sample_row 1 ''pending'' 50)
              \<lparr>r_items := [\<lparr>name = ''Tea'', quantity = 2, price = 2, totalItemPrice = 4\<rparr>],
               r_totalPrice := 4, r_updated_at := 100\<rparr>]))"
proof -
  let ?d = "sample_db []" and ?od = "sample_order [tea 1, tea 2] (Some 100)"
  let ?w = "sample_world [] True" and ?b = "sample_body [tea 1, tea 2] (Some 100)"
  let ?d1 = "sample_db [sample_row 1 ''pending'' 50]"
  let ?d2 = "sample_db [(sample_row 1 ''pending'' 50)
              \<lparr>r_items := [\<lparr>name = ''Tea'', quantity = 2, price = 2, totalItemPrice = 4\<rparr>],
               r_totalPrice := 4, r_updated_at := 100\<rparr>]"
  have l3: "processOrderItems (object_array [tea 1, tea 2])
              = [\<lparr>name = ''Tea'', quantity = 3, price = 2, totalItemPrice = 6\<rparr>]"
    by (simp add: item_defs)
  have l2: "processOrderItems (object_array [tea 1, tea 1])
              = [\<lparr>name = ''Tea'', quantity = 2, price = 2, totalItemPrice = 4\<rparr>]"
    by (simp add: item_defs)
  have m: "map_items (object_array [tea 1, tea 2]) = Some (object_array [tea 1, tea 2])"
    by (simp add: map_items_def map_item_def item_defs)
  have h1: "createOrder ?d ?od = (fst (createOrder ?d ?od), Inr 10)"
    by (simp add: createOrder_def sample_db_def Let_def)
  have h2: "post_submit ?w ?b
     = (fst (post_submit ?w ?b), Created 10 (sample_echo [tea 1, tea 2] (Some 100)),
        snd (snd (post_submit ?w ?b)))"
    by (simp add: post_submit_def validateOrderData_def truthy_def sample_world_def
        sample_body_def sample_echo_def sample_db_def createOrder_def getOrderById_def m
        Let_def)
      (simp add: object_array_def)
  have h3: "updateOrderItems ?d1 1 (object_array [tea 1, tea 1]) = Inr ?d2"
    by (simp add: updateOrderItems_def sample_db_def sample_row_def l2 Let_def
        del: processOrderItems.simps)
  from stored_total_is_sum_of_lines
    [where d = ?d and od = ?od and d' = "fst (createOrder ?d ?od)" and newId = 10
       and w = ?w and body = ?b and w' = "fst (post_submit ?w ?b)" and submittedId = 10
       and e = "sample_echo [tea 1, tea 2] (Some 100)"
       and effs = "snd (snd (post_submit ?w ?b))"
       and ?d0.0 = ?d1 and orderId = 1 and newItems = "object_array [tea 1, tea 1]"
       and d0' = ?d2]
    h1 h2 h3
  have u0: "(\<forall>r\<in>set (rows ?d2). r_id r = 1 \<longrightarrow>
           r_totalPrice r = (\<Sum>l\<leftarrow>r_items r. price l * of_int (quantity l)))"
    and "(\<exists>r. rows (fst (createOrder ?d ?od)) = rows ?d @ [r] \<and> r_id r = 10
           \<and> r_items r = processOrderItems (od_items ?od)
           \<and> r_totalPrice r = (\<Sum>l\<leftarrow>r_items r. price l * of_int (quantity l)))"
    and "(\<exists>mapped r. map_items (b_items ?b) = Some mapped
           \<and> rows (db (fst (post_submit ?w ?b))) = rows (db ?w) @ [r] \<and> r_id r = 10
           \<and> r_items r = processOrderItems mapped
           \<and> r_totalPrice r = (\<Sum>l\<leftarrow>r_items r. price l * of_int (quantity l)))"
    by blast+
  then have "\<exists>r. rows (fst (createOrder ?d ?od)) = [r] \<and> r_id r = 10 \<and> r_totalPrice r = 6"
    and "\<exists>r. rows (db (fst (post_submit ?w ?b))) = [r] \<and> r_id r = 10 \<and> r_totalPrice r = 6"
    by (auto simp: sample_db_def sample_world_def sample_order_def sample_body_def m l3
        simp del: processOrderItems.simps)
  moreover have "list_all (\<lambda>r. r_totalPrice r = (\<Sum>l\<leftarrow>r_items r. price l * of_int (quantity l)))
        (rows ?d2)"
    using u0 by (simp add: sample_db_def sample_row_def)
  ultimately show ?thesis using h1 h2 h3 by blast
qed

subsection \<open>Ready while disconnected (C4)\<close>

text \<open>
  C4: a staff update to \<open>ready\<close> while the transport service is disconnected commits the
  new status and answers with success and \<open>robotNotified = false\<close>; the dashboards get the
  warning event followed by the status event, and nothing is published. The router is
  wired as the server does it: a service has been set, and so has the push channel.
\<close>

theorem ready_commits_when_disconnected:
  assumes found: "getOrderById (db w) orderId = Inr (Some existingOrder)"
    and service: "mqttService w = Some m"
    and down: "\<not> isConnected m"
    and push: "io w"
  shows "\<exists>w' updatedOrder.
           put_status w orderId (Some ''ready'') =
             (w', Status_ok orderId (r_status existingOrder) ''ready'' (Some False),
              [IoEmit (Mqtt_warning orderId),
               IoEmit (Order_status_updated orderId (r_status existingOrder) ''ready'' None
                         (Some updatedOrder))])
         \<and> status_of w' orderId = Some ''ready''
         \<and> r_status updatedOrder = ''ready''"
proof -
  from updateOrderStatus_found [OF found, of "''ready''"] obtain d' upd where
    u: "updateOrderStatus (db w) orderId ''ready'' = Inr d'"
    and g1: "getOrderById d' orderId = Inr (Some upd)"
    and su: "r_status upd = ''ready''"
    and st: "(case filter (\<lambda>r. r_id r = orderId) (rows d') of [] \<Rightarrow> None
              | r # _ \<Rightarrow> Some (r_status r)) = Some ''ready''"
    by blast
  have "put_status w orderId (Some ''ready'') =
          (w\<lparr>db := d'\<rparr>, Status_ok orderId (r_status existingOrder) ''ready'' (Some False),
           [IoEmit (Mqtt_warning orderId),
            IoEmit (Order_status_updated orderId (r_status existingOrder) ''ready'' None
                      (Some upd))])"
    by (simp add: put_status_found [OF found u g1 ready_allowed] service down push
        mqtt_connected_def io_emit_def)
  moreover have "status_of (w\<lparr>db := d'\<rparr>) orderId = Some ''ready''"
    by (simp add: status_of_db st)
  ultimately show ?thesis using su by blast
qed

theorem ready_commits_when_disconnected_witness:
  "getOrderById (db (sample_world [sample_row 1 ''preparing'' 50] False)) 1
     = Inr (Some (read_row (sample_row 1 ''preparing'' 50)))
   \<and> mqttService (sample_world [sample_row 1 ''preparing'' 50] False)
       = Some \<lparr>isConnected = False, client_err = None\<rparr>
   \<and> io (sample_world [sample_row 1 ''preparing'' 50] False)
   \<and> (\<exists>w' updatedOrder.
         put_status (sample_world [sample_row 1 ''preparing'' 50] False) 1 (Some ''ready'') =
           (w', Status_ok 1 ''preparing'' ''ready'' (Some False),
            [IoEmit (Mqtt_warning 1),
             IoEmit (Order_status_updated 1 ''preparing'' ''ready'' None (Some updatedOrder))])
         \<and> status_of w' 1 = Some ''ready'')"
proof -
  have h: "getOrderById (db (sample_world [sample_row 1 ''preparing'' 50] False)) 1
             = Inr (Some (read_row (sample_row 1 ''preparing'' 50)))"
    by (simp add: getOrderById_def sample_world_def sample_db_def sample_row_def)
  have s: "mqttService (sample_world [sample_row 1 ''preparing'' 50] False)
             = Some \<lparr>isConnected = False, client_err = None\<rparr>"
    by (simp add: sample_world_def)
  have c: "\<not> isConnected \<lparr>isConnected = False, client_err = None\<rparr>"
    by simp
  have p: "io (sample_world [sample_row 1 ''preparing'' 50] False)"
    by (simp add: sample_world_def)
  have o: "r_status (read_row (sample_row 1 ''preparing'' 50)) = ''preparing''"
    by (simp add: r_status_read_row sample_row_def)
  from ready_commits_when_disconnected [OF h s c p] o
  have "\<exists>w' updatedOrder.
         put_status (sample_world [sample_row 1 ''preparing'' 50] False) 1 (Some ''ready'') =
           (w', Status_ok 1 ''preparing'' ''ready'' (Some False),
            [IoEmit (Mqtt_warning 1),
             IoEmit (Order_status_updated 1 ''preparing'' ''ready'' None (Some updatedOrder))])
         \<and> status_of w' 1 = Some ''ready''"
    by auto
  with h s p show ?thesis by blast
qed

subsection \<open>Automated updates (C5)\<close>

text \<open>
  C5: an automated status update on an existing order succeeds for \<open>delivered\<close>, which is
  then the stored status, and is refused with status code 400 and the message that the
  status cannot be auto-updated for every other status it names; a refused request
  changes nothing and has no effect. (A request that names no status, or the empty one,
  is refused earlier, as incomplete.)
\<close>

theorem auto_update_only_delivered:
  assumes found: "getOrderById (db w) orderId = Inr (Some existingOrder)"
    and nz: "orderId \<noteq> 0"
  shows "fst (snd (post_auto_update_status w
                     \<lparr>a_orderId = Some orderId, a_status = Some ''delivered'', a_source = src\<rparr>))
           = Auto_ok orderId (r_status existingOrder) ''delivered'' (str_or src ''robot'')
       \<and> status_of (fst (post_auto_update_status w
                     \<lparr>a_orderId = Some orderId, a_status = Some ''delivered'', a_source = src\<rparr>))
           orderId = Some ''delivered''
       \<and> (s \<noteq> ''delivered'' \<longrightarrow> s \<noteq> [] \<longrightarrow>
            post_auto_update_status w
              \<lparr>a_orderId = Some orderId, a_status = Some s, a_source = src\<rparr>
            = (w, Failure 400 ''This status cannot be auto-updated'', []))
       \<and> (st = None \<or> st = Some [] \<longrightarrow>
            post_auto_update_status w
              \<lparr>a_orderId = Some orderId, a_status = st, a_source = src\<rparr>
            = (w, Failure 400 ''Order ID and status are required'', []))"
proof -
  from updateOrderStatus_found [OF found, of "''delivered''"] obtain d' where
    u: "updateOrderStatus (db w) orderId ''delivered'' = Inr d'"
    and st: "(case filter (\<lambda>r. r_id r = orderId) (rows d') of [] \<Rightarrow> None
              | r # _ \<Rightarrow> Some (r_status r)) = Some ''delivered''"
    by blast
  have ok: "fst (snd (post_auto_update_status w
                     \<lparr>a_orderId = Some orderId, a_status = Some ''delivered'', a_source = src\<rparr>))
           = Auto_ok orderId (r_status existingOrder) ''delivered'' (str_or src ''robot'')
       \<and> status_of (fst (post_auto_update_status w
                     \<lparr>a_orderId = Some orderId, a_status = Some ''delivered'', a_source = src\<rparr>))
           orderId = Some ''delivered''"
    by (simp add: auto_update_found [OF found u nz] status_of_db st)
  have missing: "post_auto_update_status w
              \<lparr>a_orderId = Some orderId, a_status = st, a_source = src\<rparr>
            = (w, Failure 400 ''Order ID and status are required'', [])"
    if "st = None \<or> st = Some []"
    using that unfolding post_auto_update_status_def by auto
  show ?thesis
    using ok missing auto_update_refused [OF found nz] by blast
qed

theorem auto_update_only_delivered_witness:
  "getOrderById (db (sample_world [sample_row 1 ''ready'' 50] True)) 1
     = Inr (Some (read_row (sample_row 1 ''ready'' 50)))
   \<and> status_of (fst (post_auto_update_status (sample_world [sample_row 1 ''ready'' 50] True)
                       \<lparr>a_orderId = Some 1, a_status = Some ''delivered'', a_source = None\<rparr>))
        1 = Some ''delivered''
   \<and> post_auto_update_status (sample_world [sample_row 1 ''ready'' 50] True)
        \<lparr>a_orderId = Some 1, a_status = Some ''cancelled'', a_source = None\<rparr>
      = (sample_world [sample_row 1 ''ready'' 50] True,
         Failure 400 ''This status cannot be auto-updated'', [])"
proof -
  have h: "getOrderById (db (sample_world [sample_row 1 ''ready'' 50] True)) 1
             = Inr (Some (read_row (sample_row 1 ''ready'' 50)))"
    by (simp add: getOrderById_def sample_world_def sample_db_def sample_row_def)
  have n: "(1::nat) \<noteq> 0" by simp
  show ?thesis
    using h auto_update_only_delivered [OF h n, of None "''cancelled''" None]
    by simp
qed

subsection \<open>Validation of a submission (C6)\<close>

text \<open>
  C6, as stated: submission fails with a validation error exactly when the table id is
  absent, the items are not a non-empty collection, or no consolidated item has a
  quantity of at least 1; the caller's total never makes it fail. Here the table id is
  present and the one item has quantity 1, and the submission is refused because the
  caller's total is 0.
\<close>

theorem submit_refuses_zero_total_counterexample:
  "truthy (b_tableId (sample_body [tea 1] (Some 0)))
   \<and> b_items (sample_body [tea 1] (Some 0)) = object_array [tea 1]
   \<and> map_items (object_array [tea 1]) = Some (object_array [tea 1])
   \<and> processOrderItems (object_array [tea 1])
       = [\<lparr>name = ''Tea'', quantity = 1, price = 2, totalItemPrice = 2\<rparr>]
   \<and> post_submit (sample_world [] True) (sample_body [tea 1] (Some 0))
       = (sample_world [] True, Failure 400 ''Total price must be greater than 0'', [])"
  by (simp add: post_submit_def validateOrderData_def truthy_def sample_body_def
      map_items_def map_item_def item_defs)

text \<open>
  C6, amended: submission is refused with a validation error (status code 400) exactly
  when the table id is absent or falsy, or the items are not a non-empty array, or the
  caller's total is absent, zero or negative; a refused submission changes nothing and
  has no effect.
\<close>

theorem submit_validation_exactly:
  "((\<exists>msg. fst (snd (post_submit w body)) = Failure 400 msg) \<longleftrightarrow>
      (\<not> truthy (b_tableId body)
       \<or> b_items body = NoItems \<or> b_items body = NonArray \<or> b_items body = ItemArray []
       \<or> b_totalPrice body = None \<or> (\<exists>t. b_totalPrice body = Some t \<and> t \<le> 0)))
   \<and> ((\<exists>msg. fst (snd (post_submit w body)) = Failure 400 msg) \<longrightarrow>
        fst (post_submit w body) = w \<and> snd (snd (post_submit w body)) = [])"
proof (cases "validateOrderData (b_tableId body) (b_items body) (b_totalPrice body)")
  case (Invalid msg)
  have "\<not> (truthy (b_tableId body) \<and> (\<exists>x xs. b_items body = ItemArray (x # xs))
           \<and> (\<exists>t. b_totalPrice body = Some t \<and> 0 < t))"
    using Invalid validateOrderData_Valid [of "b_tableId body" "b_items body" "b_totalPrice body"]
    by simp
  then have bad: "\<not> truthy (b_tableId body)
       \<or> b_items body = NoItems \<or> b_items body = NonArray \<or> b_items body = ItemArray []
       \<or> b_totalPrice body = None \<or> (\<exists>t. b_totalPrice body = Some t \<and> t \<le> 0)"
    by (cases "b_items body"; cases "b_totalPrice body")
      (auto simp: not_less intro: list.exhaust)
  show ?thesis
    using bad by (simp add: post_submit_invalid [OF Invalid])
next
  case Valid
  have good: "truthy (b_tableId body) \<and> (\<exists>x xs. b_items body = ItemArray (x # xs))
           \<and> (\<exists>t. b_totalPrice body = Some t \<and> 0 < t)"
    using Valid validateOrderData_Valid [of "b_tableId body" "b_items body" "b_totalPrice body"]
    by simp
  then have nbad: "\<not> (\<not> truthy (b_tableId body)
       \<or> b_items body = NoItems \<or> b_items body = NonArray \<or> b_items body = ItemArray []
       \<or> b_totalPrice body = None \<or> (\<exists>t. b_totalPrice body = Some t \<and> t \<le> 0))"
    by auto
  have no400: "fst (snd (post_submit w body)) \<noteq> Failure 400 msg" for msg
    using post_submit_valid [OF Valid, of w] by auto
  show ?thesis
    using nbad no400 by blast
qed

theorem submit_validation_exactly_witness:
  "b_totalPrice (sample_body [tea 1] (Some (-5))) = Some (-5)
   \<and> fst (snd (post_submit (sample_world [] True) (sample_body [tea 1] (Some (-5)))))
       = Failure 400 ''Total price must be greater than 0''
   \<and> fst (post_submit (sample_world [] True) (sample_body [tea 1] (Some (-5))))
       = sample_world [] True
   \<and> snd (snd (post_submit (sample_world [] True) (sample_body [tea 1] (Some (-5))))) = []"
proof -
  have t: "b_totalPrice (sample_body [tea 1] (Some (-5))) = Some (-5)"
    by (simp add: sample_body_def)
  have f: "fst (snd (post_submit (sample_world [] True) (sample_body [tea 1] (Some (-5)))))
       = Failure 400 ''Total price must be greater than 0''"
    by (simp add: post_submit_def validateOrderData_def truthy_def sample_body_def
        object_array_def)
  from submit_validation_exactly [of "sample_world [] True" "sample_body [tea 1] (Some (-5))"] f
  have "fst (post_submit (sample_world [] True) (sample_body [tea 1] (Some (-5))))
       = sample_world [] True
     \<and> snd (snd (post_submit (sample_world [] True) (sample_body [tea 1] (Some (-5))))) = []"
    by simp
  with t f show ?thesis by blast
qed

text \<open>Two submissions that pass the validation: one with a negative quantity, which is
  stored, and one whose only item is \<open>null\<close>, which ends in the route's \<open>catch\<close>.\<close>

lemma submit_negative_quantity_stored:
  "fst (snd (post_submit (sample_world [] True) (sample_body [tea (-1)] (Some 5))))
     = Created 10 (sample_echo [tea (-1)] (Some 5))"
  by (simp add: post_submit_def validateOrderData_def truthy_def sample_world_def
      sample_body_def sample_echo_def sample_db_def createOrder_def getOrderById_def
      map_items_def map_item_def item_defs Let_def)

lemma submit_null_item_fails:
  "post_submit (sample_world [] True)
     \<lparr>b_tableId = Some (JStr ''T5''), b_tableLocation = None, b_restaurantId = None,
      b_items = ItemArray [None], b_totalPrice = Some 5\<rparr>
   = (sample_world [] True, Failure 500 ''Failed to save order'', [])"
  by (simp add: post_submit_def validateOrderData_def truthy_def map_items_def)

subsection \<open>Consolidation twice (C7)\<close>

text \<open>
  Where the quantities are integers that JavaScript adds without rounding (their
  magnitudes sum to at most \<open>2^53\<close>), \<open>parseInt\<close> changes neither an item's quantity nor a
  consolidated one.
\<close>

lemma safe_quantities:
  assumes safe: "(\<Sum>x\<leftarrow>xs. \<bar>rawQuantity x\<bar>) \<le> 2 ^ 53"
  shows "\<forall>x\<in>set xs. itemQuantity x = rawQuantity x"
    and "\<forall>l\<in>set (processOrderItems (object_array xs)). \<bar>quantity l\<bar> < 10 ^ 21"
proof -
  have small: "(2::int) ^ 53 < 10 ^ 21" by simp
  show raw: "\<forall>x\<in>set xs. itemQuantity x = rawQuantity x"
  proof
    fix x assume "x \<in> set xs"
    then have "\<bar>rawQuantity x\<bar> \<le> (\<Sum>x\<leftarrow>xs. \<bar>rawQuantity x\<bar>)"
      by (intro member_le_sum_list_int) auto
    with safe small have "\<bar>rawQuantity x\<bar> < 10 ^ 21" by linarith
    then show "itemQuantity x = rawQuantity x"
      by (simp add: itemQuantity_def parseInt_small)
  qed
  show "\<forall>l\<in>set (processOrderItems (object_array xs)). \<bar>quantity l\<bar> < 10 ^ 21"
  proof
    fix l assume l: "l \<in> set (processOrderItems (object_array xs))"
    let ?f = "filter (\<lambda>x. itemName x = name l) xs"
    have "quantity l = (\<Sum>x\<leftarrow>?f. itemQuantity x)"
      using quantity_processOrderItems [OF l] .
    also have "\<dots> = (\<Sum>x\<leftarrow>?f. rawQuantity x)"
      using raw by (intro arg_cong [where f = sum_list] map_cong) auto
    finally have "\<bar>quantity l\<bar> \<le> (\<Sum>x\<leftarrow>?f. \<bar>rawQuantity x\<bar>)"
      using sum_list_abs [of "map rawQuantity ?f"] by (simp add: comp_def)
    also have "\<dots> \<le> (\<Sum>x\<leftarrow>xs. \<bar>rawQuantity x\<bar>)"
      by (intro sum_list_filter_le) auto
    finally show "\<bar>quantity l\<bar> < 10 ^ 21" using safe small by linarith
  qed
qed

text \<open>
  C7, as stated: consolidating an already consolidated sequence gives the same sequence,
  for every input. Two entries of the same name whose quantities cancel consolidate to
  one line of quantity 0; read again, that quantity counts as missing and becomes 1.
\<close>

theorem consolidate_twice_counterexample:
  "processOrderItems (object_array [tea 2, tea (-2)])
     = [\<lparr>name = ''Tea'', quantity = 0, price = 2, totalItemPrice = 0\<rparr>]
   \<and> processOrderItems
        (object_array (map line_json (processOrderItems (object_array [tea 2, tea (-2)]))))
     = [\<lparr>name = ''Tea'', quantity = 1, price = 2, totalItemPrice = 2\<rparr>]"
  by (simp add: line_json_def item_defs)

text \<open>
  C7, amended: consolidation is a function of the input sequence. Its output has one line
  per name, in the order in which the names are first seen; a line has the price of the
  first item of its name, as quantity the sum of the quantities of the items of that
  name, and as line total its price times that quantity. Consolidating the output again
  gives the same sequence whenever no consolidated quantity is 0 and the quantities are
  integers that are added without rounding (their magnitudes sum to at most \<open>2^53\<close>), in
  particular whenever every quantity in that range is at least 1. An input that is not
  an array of objects consolidates to the empty sequence, which stays empty.
\<close>

theorem consolidate_idempotent_in_range:
  "map name (processOrderItems (object_array xs)) = first_seen (map itemName xs)
   \<and> distinct (map name (processOrderItems (object_array xs)))
   \<and> (\<forall>l\<in>set (processOrderItems (object_array xs)).
         quantity l = (\<Sum>x\<leftarrow>filter (\<lambda>x. itemName x = name l) xs. itemQuantity x)
         \<and> price l = first_price xs (name l)
         \<and> totalItemPrice l = price l * of_int (quantity l))
   \<and> ((\<Sum>x\<leftarrow>xs. \<bar>rawQuantity x\<bar>) \<le> 2 ^ 53
        \<and> (\<forall>l\<in>set (processOrderItems (object_array xs)). quantity l \<noteq> 0) \<longrightarrow>
        processOrderItems (object_array (map line_json (processOrderItems (object_array xs))))
          = processOrderItems (object_array xs))
   \<and> ((\<Sum>x\<leftarrow>xs. \<bar>rawQuantity x\<bar>) \<le> 2 ^ 53 \<and> (\<forall>x\<in>set xs. 1 \<le> rawQuantity x) \<longrightarrow>
        processOrderItems (object_array (map line_json (processOrderItems (object_array xs))))
          = processOrderItems (object_array xs))
   \<and> (processOrderItems items = [] \<longrightarrow>
        processOrderItems (object_array (map line_json (processOrderItems items))) = [])"
proof -
  let ?ls = "processOrderItems (object_array xs)"
  have inv: "distinct (map name ?ls)" "list_all line_ok ?ls"
    using processOrderItems_inv [of "object_array xs"] by simp_all
  have tot: "\<forall>l\<in>set ?ls. totalItemPrice l = price l * of_int (quantity l)"
    using inv(2) by (simp add: list_all_iff line_ok_def)
  have qty: "\<forall>l\<in>set ?ls.
      quantity l = (\<Sum>x\<leftarrow>filter (\<lambda>x. itemName x = name l) xs. itemQuantity x)"
    using quantity_processOrderItems by blast
  have prc: "\<forall>l\<in>set ?ls. price l = first_price xs (name l)"
    using price_processOrderItems by blast
  have again: "processOrderItems (object_array (map line_json ?ls)) = ?ls"
    if safe: "(\<Sum>x\<leftarrow>xs. \<bar>rawQuantity x\<bar>) \<le> 2 ^ 53" and nz: "\<forall>l\<in>set ?ls. quantity l \<noteq> 0"
  proof -
    have "\<forall>l\<in>set ?ls. quantity l \<noteq> 0 \<and> \<bar>quantity l\<bar> < 10 ^ 21"
      using nz safe_quantities(2) [OF safe] by blast
    then have "foldl forEach_item [] (map line_json ?ls) = [] @ ?ls"
      using inv by (intro replay_lines) simp_all
    then show ?thesis by (simp add: processOrderItems_objects)
  qed
  have pos: "\<forall>l\<in>set ?ls. quantity l \<noteq> 0"
    if safe: "(\<Sum>x\<leftarrow>xs. \<bar>rawQuantity x\<bar>) \<le> 2 ^ 53" and ge: "\<forall>x\<in>set xs. 1 \<le> rawQuantity x"
  proof
    fix l assume l: "l \<in> set ?ls"
    then have "name l \<in> set (map name ?ls)" by simp
    then have "name l \<in> set (first_seen (map itemName xs))"
      by (simp only: names_processOrderItems)
    then have "name l \<in> set (map itemName xs)"
      by (simp add: set_first_seen)
    then obtain x where x: "x \<in> set xs" "itemName x = name l" by auto
    let ?f = "filter (\<lambda>x. itemName x = name l) xs"
    have "x \<in> set ?f" using x by simp
    then have "?f \<noteq> []" by (metis empty_iff empty_set)
    moreover have "\<forall>y\<in>set ?f. 1 \<le> itemQuantity y"
      using ge safe_quantities(1) [OF safe] by simp
    ultimately have "1 \<le> (\<Sum>y\<leftarrow>?f. itemQuantity y)"
      by (rule sum_list_ge_one)
    with qty l show "quantity l \<noteq> 0" by simp
  qed
  have empty: "processOrderItems items = [] \<longrightarrow>
        processOrderItems (object_array (map line_json (processOrderItems items))) = []"
    by (simp add: processOrderItems_objects)
  show ?thesis
    using names_processOrderItems [of xs] inv(1) tot qty prc again pos empty by blast
qed

theorem consolidate_idempotent_in_range_witness:
  "(\<Sum>x\<leftarrow>[tea 1, tea 2, sample_item ''Cake'' 1 5]. \<bar>rawQuantity x\<bar>) = 4
   \<and> list_all (\<lambda>x. 1 \<le> rawQuantity x) [tea 1, tea 2, sample_item ''Cake'' 1 5]
   \<and> processOrderItems (object_array [tea 1, tea 2, sample_item ''Cake'' 1 5])
       = [\<lparr>name = ''Tea'', quantity = 3, price = 2, totalItemPrice = 6\<rparr>,
          \<lparr>name = ''Cake'', quantity = 1, price = 5, totalItemPrice = 5\<rparr>]
   \<and> processOrderItems (object_array (map line_json
          (processOrderItems (object_array [tea 1, tea 2, sample_item ''Cake'' 1 5]))))
       = [\<lparr>name = ''Tea'', quantity = 3, price = 2, totalItemPrice = 6\<rparr>,
          \<lparr>name = ''Cake'', quantity = 1, price = 5, totalItemPrice = 5\<rparr>]"
proof -
  let ?xs = "[tea 1, tea 2, sample_item ''Cake'' 1 5]"
  have s: "(\<Sum>x\<leftarrow>?xs. \<bar>rawQuantity x\<bar>) = 4"
    by (simp add: tea_def sample_item_def rawQuantity_def num_or_def)
  have q: "\<forall>x\<in>set ?xs. 1 \<le> rawQuantity x"
    by (simp add: tea_def sample_item_def rawQuantity_def num_or_def)
  have l: "processOrderItems (object_array ?xs)
       = [\<lparr>name = ''Tea'', quantity = 3, price = 2, totalItemPrice = 6\<rparr>,
          \<lparr>name = ''Cake'', quantity = 1, price = 5, totalItemPrice = 5\<rparr>]"
    by (simp add: item_defs)
  have "(\<Sum>x\<leftarrow>?xs. \<bar>rawQuantity x\<bar>) \<le> 2 ^ 53" by (simp only: s) simp
  with consolidate_idempotent_in_range [of ?xs] q
  have "processOrderItems (object_array (map line_json (processOrderItems (object_array ?xs))))
          = processOrderItems (object_array ?xs)"
    by blast
  with s q l show ?thesis by (simp add: list_all_iff del: processOrderItems.simps)
qed

text \<open>Two items of quantity \<open>6 * 10^20\<close> consolidate to \<open>1.2 * 10^21\<close>, which a second pass
  reads as 1: outside the range, a quantity of at least 1 is not enough.\<close>

lemma consolidate_twice_large:
  "processOrderItems (object_array [tea 600000000000000000000, tea 600000000000000000000])
     = [\<lparr>name = ''Tea'', quantity = 1200000000000000000000, price = 2,
         totalItemPrice = 2400000000000000000000\<rparr>]
   \<and> processOrderItems (object_array (map line_json
        (processOrderItems
           (object_array [tea 600000000000000000000, tea 600000000000000000000]))))
     = [\<lparr>name = ''Tea'', quantity = 1, price = 2, totalItemPrice = 2\<rparr>]"
  by (simp add: line_json_def item_defs leading_digit.simps)

subsection \<open>The pending listing (C8)\<close>

text \<open>
  C8: the pending listing holds no order whose status is \<open>delivered\<close>, \<open>cancelled\<close> or
  \<open>completed\<close>, and its orders are in ascending order of creation time. It holds every
  other order of the table.
\<close>

theorem pending_listing_excludes_finished_sorted:
  assumes "getPendingOrders d = Inr orders"
  shows "(\<forall>ord\<in>set orders.
            r_status ord \<noteq> ''delivered'' \<and> r_status ord \<noteq> ''cancelled''
            \<and> r_status ord \<noteq> ''completed'')
       \<and> sorted (map r_created_at orders)
       \<and> set (map r_id orders) =
           r_id ` {r \<in> set (rows d). r_status r \<noteq> ''delivered'' \<and> r_status r \<noteq> ''cancelled''
                                       \<and> r_status r \<noteq> ''completed''}"
proof -
  let ?keep = "filter (\<lambda>r. r_status r \<notin> set [''completed'', ''cancelled'', ''delivered''])
                 (rows d)"
  have o: "orders = map read_row (sort_key r_created_at ?keep)"
    using getPendingOrders_InrD [OF assms] .
  have st: "\<forall>ord\<in>set orders.
            r_status ord \<noteq> ''delivered'' \<and> r_status ord \<noteq> ''cancelled''
            \<and> r_status ord \<noteq> ''completed''"
    unfolding o by (auto simp: r_status_read_row)
  have "map r_created_at orders = map r_created_at (sort_key r_created_at ?keep)"
    unfolding o by (simp add: r_created_at_read_row comp_def)
  then have so: "sorted (map r_created_at orders)"
    by (simp only: sorted_sort_key)
  have "map r_id orders = map r_id (sort_key r_created_at ?keep)"
    unfolding o by (simp add: r_id_read_row comp_def)
  then have "set (map r_id orders) = r_id ` set ?keep"
    by simp
  also have "set ?keep = {r \<in> set (rows d). r_status r \<noteq> ''delivered''
      \<and> r_status r \<noteq> ''cancelled'' \<and> r_status r \<noteq> ''completed''}"
    by auto
  finally show ?thesis using st so by blast
qed

theorem pending_listing_excludes_finished_sorted_witness:
  "getPendingOrders (sample_db [sample_row 1 ''ready'' 50, sample_row 2 ''delivered'' 20,
                                sample_row 3 ''pending'' 30, sample_row 4 ''completed'' 10,
                                sample_row 5 ''cancelled'' 5])
     = Inr [read_row (sample_row 3 ''pending'' 30), read_row (sample_row 1 ''ready'' 50)]
   \<and> sorted (map r_created_at
               [read_row (sample_row 3 ''pending'' 30), read_row (sample_row 1 ''ready'' 50)])
   \<and> list_all (\<lambda>ord. r_status ord \<noteq> ''delivered'' \<and> r_status ord \<noteq> ''cancelled''
                     \<and> r_status ord \<noteq> ''completed'')
        [read_row (sample_row 3 ''pending'' 30), read_row (sample_row 1 ''ready'' 50)]"
proof -
  have h: "getPendingOrders (sample_db [sample_row 1 ''ready'' 50, sample_row 2 ''delivered'' 20,
                                sample_row 3 ''pending'' 30, sample_row 4 ''completed'' 10,
                                sample_row 5 ''cancelled'' 5])
     = Inr [read_row (sample_row 3 ''pending'' 30), read_row (sample_row 1 ''ready'' 50)]"
    by (simp add: getPendingOrders_def sample_db_def sample_row_def)
  from pending_listing_excludes_finished_sorted [OF h] h
  show ?thesis by (simp only: list_all_iff) blast
qed

subsection \<open>Publishing (C9)\<close>

text \<open>
  C9: \<open>publish\<close> on a service that is not connected returns the error at once: the broker
  client is not called and nothing is kept for later. On a connected service a publish
  without a quality level reaches the broker client with level 1, and the emergency stop
  reaches it on the emergency topic with level 2, the highest level of the protocol.
\<close>

theorem publish_fails_when_disconnected:
  "(\<not> isConnected m \<longrightarrow>
      publish m topic data options = (Inl ''MQTT not connected'', [])
      \<and> emergencyStop m = (Inl ''MQTT not connected'', []))
   \<and> (isConnected m \<longrightarrow>
      (\<exists>res. publish m topic data (options\<lparr>o_qos := None\<rparr>) =
         (res, [ClientPublish \<lparr>p_topic = topic, p_payload = data, p_qos = 1,
                                p_retain = bool_or (o_retain options) False,
                                p_dup = bool_or (o_dup options) False\<rparr>]))
      \<and> (\<exists>res. emergencyStop m =
         (res, [ClientPublish \<lparr>p_topic = EMERGENCY, p_payload = Emergency_stop, p_qos = 2,
                                p_retain = False, p_dup = False\<rparr>])))"
  by (simp add: publish_def emergencyStop_def no_options_def num_or_def bool_or_def Let_def)

theorem publish_fails_when_disconnected_witness:
  "publish \<lparr>isConnected = False, client_err = None\<rparr> ORDERS_STATUS_UPDATE (Status_updated 1 ''pending'' ''ready'') no_options
     = (Inl ''MQTT not connected'', [])
   \<and> emergencyStop \<lparr>isConnected = False, client_err = None\<rparr> = (Inl ''MQTT not connected'', [])
   \<and> (\<exists>res. publish \<lparr>isConnected = True, client_err = None\<rparr> ORDERS_STATUS_UPDATE (Status_updated 1 ''pending'' ''ready'')
               (no_options\<lparr>o_qos := None\<rparr>) =
         (res, [ClientPublish \<lparr>p_topic = ORDERS_STATUS_UPDATE,
                                p_payload = Status_updated 1 ''pending'' ''ready'', p_qos = 1,
                                p_retain = False, p_dup = False\<rparr>]))
   \<and> (\<exists>res. emergencyStop \<lparr>isConnected = True, client_err = None\<rparr> =
         (res, [ClientPublish \<lparr>p_topic = EMERGENCY, p_payload = Emergency_stop, p_qos = 2,
                                p_retain = False, p_dup = False\<rparr>]))"
  using publish_fails_when_disconnected
      [of "\<lparr>isConnected = False, client_err = None\<rparr>" ORDERS_STATUS_UPDATE
         "Status_updated 1 ''pending'' ''ready''" no_options]
    publish_fails_when_disconnected
      [of "\<lparr>isConnected = True, client_err = None\<rparr>" ORDERS_STATUS_UPDATE
         "Status_updated 1 ''pending'' ''ready''" no_options]
  by (simp add: no_options_def bool_or_def)

subsection \<open>The total in the submit response (C10)\<close>

text \<open>A submission of two teas at different prices and a cake, with a caller's total of
  100: the stored lines, and the 201 response.\<close>

lemma sample_lines:
  "processOrderItems
     (object_array [sample_item ''Tea'' 1 2, sample_item ''Tea'' 2 3, sample_item ''Cake'' 1 5])
   = [\<lparr>name = ''Tea'', quantity = 3, price = 2, totalItemPrice = 6\<rparr>,
      \<lparr>name = ''Cake'', quantity = 1, price = 5, totalItemPrice = 5\<rparr>]"
  by (simp add: item_defs)

lemma sample_submission:
  "post_submit (sample_world [] True)
     (sample_body [sample_item ''Tea'' 1 2, sample_item ''Tea'' 2 3, sample_item ''Cake'' 1 5]
        (Some 100))
   = (fst (post_submit (sample_world [] True)
        (sample_body [sample_item ''Tea'' 1 2, sample_item ''Tea'' 2 3, sample_item ''Cake'' 1 5]
           (Some 100))),
      Created 10
        (sample_echo [sample_item ''Tea'' 1 2, sample_item ''Tea'' 2 3, sample_item ''Cake'' 1 5]
           (Some 100)),
      snd (snd (post_submit (sample_world [] True)
        (sample_body [sample_item ''Tea'' 1 2, sample_item ''Tea'' 2 3, sample_item ''Cake'' 1 5]
           (Some 100)))))"
proof -
  have m: "map_items
      (object_array [sample_item ''Tea'' 1 2, sample_item ''Tea'' 2 3, sample_item ''Cake'' 1 5])
    = Some (object_array
        [sample_item ''Tea'' 1 2, sample_item ''Tea'' 2 3, sample_item ''Cake'' 1 5])"
    by (simp add: map_items_def map_item_def item_defs)
  show ?thesis
    by (simp add: post_submit_def validateOrderData_def truthy_def sample_world_def
        sample_body_def sample_echo_def sample_db_def createOrder_def getOrderById_def m
        Let_def)
      (simp add: object_array_def)
qed

text \<open>
  C10: the \<open>orderData\<close> of every 201 response carries the caller's total, while the stored
  total of the same order is computed from the items: the stored lines are the
  consolidated items, and the stored total is, name by name, the price of the first item
  of the name times the summed quantity of the name. There are submissions for which the
  two totals differ.
\<close>

theorem submit_response_echoes_caller_total:
  "(post_submit w body = (w', Created orderId e, effs) \<longrightarrow>
      e_totalPrice e = b_totalPrice body
      \<and> (\<exists>objects r. b_items body = object_array objects
             \<and> rows (db w') = rows (db w) @ [r] \<and> r_id r = orderId
             \<and> r_items r = processOrderItems (object_array objects)
             \<and> r_totalPrice r = grouped_total objects))
   \<and> (\<exists>w0 body0 w1 k e0 effs0 r.
         post_submit w0 body0 = (w1, Created k e0, effs0)
         \<and> rows (db w1) = rows (db w0) @ [r] \<and> r_id r = k
         \<and> e_totalPrice e0 \<noteq> Some (r_totalPrice r))"
proof -
  have gen: "post_submit w body = (w', Created orderId e, effs) \<longrightarrow>
      e_totalPrice e = b_totalPrice body
      \<and> (\<exists>objects r. b_items body = object_array objects
             \<and> rows (db w') = rows (db w) @ [r] \<and> r_id r = orderId
             \<and> r_items r = processOrderItems (object_array objects)
             \<and> r_totalPrice r = grouped_total objects)"
    for w body w' orderId e effs
  proof
    assume a: "post_submit w body = (w', Created orderId e, effs)"
    from post_submit_CreatedD [OF a] obtain objects r where
      t: "e_totalPrice e = b_totalPrice body"
      and o: "b_items body = object_array objects"
      and r: "rows (db w') = rows (db w) @ [r]" "r_id r = orderId"
        "r_items r = processOrderItems (object_array (map map_item objects))"
        "r_totalPrice r = lines_total (r_items r)"
      by blast
    have i: "r_items r = processOrderItems (object_array objects)"
      using r(3) by (simp only: processOrderItems_map_item)
    have "r_totalPrice r = grouped_total objects"
      using r(4) by (simp only: i lines_total_grouped)
    with t o r(1,2) i show "e_totalPrice e = b_totalPrice body
      \<and> (\<exists>objects r. b_items body = object_array objects
             \<and> rows (db w') = rows (db w) @ [r] \<and> r_id r = orderId
             \<and> r_items r = processOrderItems (object_array objects)
             \<and> r_totalPrice r = grouped_total objects)"
      by blast
  qed
  let ?xs = "[sample_item ''Tea'' 1 2, sample_item ''Tea'' 2 3, sample_item ''Cake'' 1 5]"
  let ?w = "sample_world [] True" and ?b = "sample_body ?xs (Some 100)"
  from gen [of ?w ?b "fst (post_submit ?w ?b)" 10 "sample_echo ?xs (Some 100)"
      "snd (snd (post_submit ?w ?b))"] sample_submission
  obtain objects r where o: "b_items ?b = object_array objects"
    and r: "rows (db (fst (post_submit ?w ?b))) = rows (db ?w) @ [r]" "r_id r = 10"
      "r_totalPrice r = grouped_total objects"
    by blast
  have "objects = ?xs"
    using o object_array_eqD [of ?xs objects] by (simp add: sample_body_def)
  moreover have "grouped_total ?xs = 11"
    using lines_total_grouped [of ?xs] by (simp only: sample_lines) (simp add: lines_total_def)
  ultimately have "r_totalPrice r = 11" using r(3) by simp
  then have "e_totalPrice (sample_echo ?xs (Some 100)) \<noteq> Some (r_totalPrice r)"
    by (simp add: sample_echo_def)
  with sample_submission r have "\<exists>w0 body0 w1 k e0 effs0 r.
         post_submit w0 body0 = (w1, Created k e0, effs0)
         \<and> rows (db w1) = rows (db w0) @ [r] \<and> r_id r = k
         \<and> e_totalPrice e0 \<noteq> Some (r_totalPrice r)"
    by blast
  with gen show ?thesis by blast
qed

theorem submit_response_echoes_caller_total_witness:
  "post_submit (sample_world [] True)
     (sample_body [sample_item ''Tea'' 1 2, sample_item ''Tea'' 2 3, sample_item ''Cake'' 1 5]
        (Some 100))
   = (fst (post_submit (sample_world [] True)
        (sample_body [sample_item ''Tea'' 1 2, sample_item ''Tea'' 2 3, sample_item ''Cake'' 1 5]
           (Some 100))),
      Created 10
        (sample_echo [sample_item ''Tea'' 1 2, sample_item ''Tea'' 2 3, sample_item ''Cake'' 1 5]
           (Some 100)),
      snd (snd (post_submit (sample_world [] True)
        (sample_body [sample_item ''Tea'' 1 2, sample_item ''Tea'' 2 3, sample_item ''Cake'' 1 5]
           (Some 100)))))
   \<and> e_totalPrice
       (sample_echo [sample_item ''Tea'' 1 2, sample_item ''Tea'' 2 3, sample_item ''Cake'' 1 5]
          (Some 100)) = Some 100
   \<and> (\<exists>r. rows (db (fst (post_submit (sample_world [] True)
        (sample_body [sample_item ''Tea'' 1 2, sample_item ''Tea'' 2 3, sample_item ''Cake'' 1 5]
           (Some 100))))) = [r]
          \<and> r_id r = 10
          \<and> r_items r = [\<lparr>name = ''Tea'', quantity = 3, price = 2, totalItemPrice = 6\<rparr>,
                         \<lparr>name = ''Cake'', quantity = 1, price = 5, totalItemPrice = 5\<rparr>]
          \<and> r_totalPrice r = 11)"
proof -
  let ?xs = "[sample_item ''Tea'' 1 2, sample_item ''Tea'' 2 3, sample_item ''Cake'' 1 5]"
  let ?w = "sample_world [] True" and ?b = "sample_body ?xs (Some 100)"
  from submit_response_echoes_caller_total
    [where w = ?w and body = ?b and w' = "fst (post_submit ?w ?b)" and orderId = 10
       and e = "sample_echo ?xs (Some 100)" and effs = "snd (snd (post_submit ?w ?b))"]
    sample_submission
  obtain objects r where t: "e_totalPrice (sample_echo ?xs (Some 100)) = b_totalPrice ?b"
    and o: "b_items ?b = object_array objects"
    and r: "rows (db (fst (post_submit ?w ?b))) = rows (db ?w) @ [r]" "r_id r = 10"
      "r_items r = processOrderItems (object_array objects)"
      "r_totalPrice r = grouped_total objects"
    by blast
  have x: "objects = ?xs"
    using o object_array_eqD [of ?xs objects] by (simp add: sample_body_def)
  have g: "grouped_total ?xs = 11"
    using lines_total_grouped [of ?xs] by (simp only: sample_lines) (simp add: lines_total_def)
  have "e_totalPrice (sample_echo ?xs (Some 100)) = Some 100"
    using t by (simp add: sample_body_def)
  moreover have "rows (db (fst (post_submit ?w ?b))) = [r]"
    using r(1) by (simp add: sample_world_def sample_db_def)
  moreover have "r_items r = [\<lparr>name = ''Tea'', quantity = 3, price = 2, totalItemPrice = 6\<rparr>,
                         \<lparr>name = ''Cake'', quantity = 1, price = 5, totalItemPrice = 5\<rparr>]"
    using r(3) by (simp only: x sample_lines)
  moreover have "r_totalPrice r = 11" using r(4) x g by simp
  ultimately show ?thesis using sample_submission r(2) by blast
qed

end
